theory Spec2Isabelle
  imports Complex_Main "HOL-Library.Sublist" "HOL-Library.Log_Nat"
begin

section \<open>Python values\<close>

text \<open>
  The service is written in Python. Its \<open>int\<close> values are modelled as \<open>int\<close>. The
  calorie totals of the meal handlers are modelled as exact rationals (\<open>pyfloat\<close>): their
  sums and products are the exact ones. The diet plan, whose results are rounded to
  integers, is modelled in double-precision arithmetic (section on doubles below). A
  \<open>str\<close> is a \<open>string\<close>, one \<open>char\<close> per character, the \<open>char\<close> being the code point:
  the strings of the model are those of code points below 256.
\<close>

type_synonym pyfloat = rat

text \<open>\<open>x or d\<close> on a number: a zero is falsy, so the default is taken.\<close>

definition num_or :: "pyfloat \<Rightarrow> pyfloat \<Rightarrow> pyfloat" where
  "num_or x d = (if x = 0 then d else x)"

text \<open>\<open>x or d\<close> on an optional number: \<open>None\<close> and zero are both falsy.\<close>

definition opt_or :: "pyfloat option \<Rightarrow> pyfloat \<Rightarrow> pyfloat" where
  "opt_or x d = (case x of None \<Rightarrow> d | Some v \<Rightarrow> if v = 0 then d else v)"

text \<open>\<open>sum(xs)\<close>: starts at 0 and adds from the left.\<close>

definition py_sum :: "pyfloat list \<Rightarrow> pyfloat" where
  "py_sum xs = foldl (+) 0 xs"

text \<open>\<open>str.isspace\<close> on a code point below 256: tab, line feed, vertical tab, form
  feed, carriage return, the four separators 0x1C to 0x1F, the space, the next-line
  control 0x85 and the no-break space 0xA0.\<close>

definition py_isspace :: "char \<Rightarrow> bool" where
  "py_isspace c = ((of_char c :: nat) \<in> {9, 10, 11, 12, 13, 28, 29, 30, 31, 32, 133, 160})"

text \<open>\<open>str.lower\<close> on a code point below 256: the capitals A to Z, 0xC0 to 0xD6 and
  0xD8 to 0xDE map to the code point 32 above, every other character to itself.\<close>

definition py_lower_char :: "char \<Rightarrow> char" where
  "py_lower_char c =
     (let n = (of_char c :: nat)
      in if (65 \<le> n \<and> n \<le> 90) \<or> (192 \<le> n \<and> n \<le> 214) \<or> (216 \<le> n \<and> n \<le> 222)
         then char_of (n + 32) else c)"

text \<open>\<open>s.lower()\<close>\<close>

definition py_lower :: "string \<Rightarrow> string" where
  "py_lower s = map py_lower_char s"

text \<open>\<open>s.strip()\<close>: white space is dropped at both ends.\<close>

definition py_strip :: "string \<Rightarrow> string" where
  "py_strip s = rev (dropWhile py_isspace (rev (dropWhile py_isspace s)))"

text \<open>
  What a handler raises. An \<open>HTTPException\<close> carries its status code and detail and
  becomes the response; every other exception leaves the handler unhandled.
  \<open>Exception m\<close> is an exception \<open>e\<close> of the store's driver, with \<open>str(e) = m\<close>.
\<close>

datatype error =
    HTTPException nat string
  | RequestValidationError
  | ValidationError
  | StorageError
  | TypeError
  | ValueError
  | KeyError
  | OverflowError
  | ZeroDivisionError
  | Exception string

definition is_client_error :: "error \<Rightarrow> bool" where
  "is_client_error e = (case e of HTTPException code _ \<Rightarrow> 400 \<le> code \<and> code < 500 | _ \<Rightarrow> False)"

section \<open>Double-precision numbers\<close>

text \<open>
  The diet plan computes with Python's \<open>float\<close>, the IEEE 754 binary64 numbers, and
  rounds its results to integers. A double is a finite value, an infinity or NaN; the
  sign of a zero is not represented, no result of the handler depends on it. \<open>fl\<close>
  rounds a rational to the nearest double, a tie going to the even significand: the
  spacing of the doubles around \<open>x\<close> is \<open>2 ^ (e - 52)\<close> with \<open>e\<close> the exponent of \<open>x\<close>, not
  below \<open>- 1022\<close> (the subnormal range), and a magnitude of at least
  \<open>2 ^ 1024 - 2 ^ 970\<close>, halfway between the largest double and \<open>2 ^ 1024\<close>, overflows
  to an infinity. An arithmetic operation on finite doubles is the exact operation
  followed by \<open>fl\<close>; a literal and a parsed number denote \<open>fl\<close> of the decimal.
\<close>

datatype double = Finite rat | PInf | NInf | NaN

text \<open>\<open>2 ^ k\<close> for an integer \<open>k\<close>.\<close>

definition pow2 :: "int \<Rightarrow> rat" where
  "pow2 k = (if 0 \<le> k then 2 ^ nat k else 1 / 2 ^ nat (- k))"

text \<open>The exponent of a positive rational: the \<open>e\<close> with \<open>2 ^ e \<le> x < 2 ^ (e + 1)\<close>, from
  the bit lengths of the numerator and the denominator.\<close>

definition ilog2 :: "rat \<Rightarrow> int" where
  "ilog2 x =
     (let (p, q) = quotient_of x; k = bitlen p - bitlen q
      in if pow2 k \<le> x then k else k - 1)"

text \<open>The nearest integer, a tie going to the even one.\<close>

definition round_half_even :: "rat \<Rightarrow> int" where
  "round_half_even x =
     (let f = \<lfloor>x\<rfloor>; d = x - of_int f
      in if d < 1 / 2 then f
         else if 1 / 2 < d then f + 1
         else if even f then f else f + 1)"

text \<open>Rounding to 53 significant bits, the exponent unbounded above.\<close>

definition round53 :: "rat \<Rightarrow> rat" where
  "round53 x =
     (let q = pow2 (max (ilog2 \<bar>x\<bar>) (- 1022) - 52)
      in of_int (round_half_even (x / q)) * q)"

definition overflow_threshold :: rat where
  "overflow_threshold = pow2 1024 - pow2 970"

definition fl :: "rat \<Rightarrow> double" where
  "fl x =
     (if overflow_threshold \<le> \<bar>x\<bar> then (if 0 < x then PInf else NInf)
      else Finite (round53 x))"

fun fneg :: "double \<Rightarrow> double" where
  "fneg (Finite a) = Finite (- a)"
| "fneg PInf = NInf"
| "fneg NInf = PInf"
| "fneg NaN = NaN"

text \<open>\<open>x + y\<close>\<close>

fun fadd :: "double \<Rightarrow> double \<Rightarrow> double" where
  "fadd (Finite a) (Finite b) = fl (a + b)"
| "fadd NaN y = NaN"
| "fadd x NaN = NaN"
| "fadd PInf NInf = NaN"
| "fadd NInf PInf = NaN"
| "fadd PInf y = PInf"
| "fadd x PInf = PInf"
| "fadd NInf y = NInf"
| "fadd x NInf = NInf"

text \<open>\<open>x - y\<close>\<close>

definition fsub :: "double \<Rightarrow> double \<Rightarrow> double" where
  "fsub x y = fadd x (fneg y)"

definition signed_inf :: "bool \<Rightarrow> double" where
  "signed_inf positive = (if positive then PInf else NInf)"

text \<open>\<open>x * y\<close>\<close>

fun fmul :: "double \<Rightarrow> double \<Rightarrow> double" where
  "fmul (Finite a) (Finite b) = fl (a * b)"
| "fmul NaN y = NaN"
| "fmul x NaN = NaN"
| "fmul (Finite a) PInf = (if a = 0 then NaN else signed_inf (0 < a))"
| "fmul (Finite a) NInf = (if a = 0 then NaN else signed_inf (a < 0))"
| "fmul PInf (Finite b) = (if b = 0 then NaN else signed_inf (0 < b))"
| "fmul NInf (Finite b) = (if b = 0 then NaN else signed_inf (b < 0))"
| "fmul PInf PInf = PInf"
| "fmul PInf NInf = NInf"
| "fmul NInf PInf = NInf"
| "fmul NInf NInf = PInf"

text \<open>\<open>x / y\<close>: a zero divisor raises \<open>ZeroDivisionError\<close>, whatever \<open>x\<close> is.\<close>

fun fdiv :: "double \<Rightarrow> double \<Rightarrow> error + double" where
  "fdiv x (Finite b) =
     (if b = 0 then Inl ZeroDivisionError
      else case x of
             Finite a \<Rightarrow> Inr (fl (a / b))
           | PInf \<Rightarrow> Inr (signed_inf (0 < b))
           | NInf \<Rightarrow> Inr (signed_inf (b < 0))
           | NaN \<Rightarrow> Inr NaN)"
| "fdiv (Finite a) PInf = Inr (Finite 0)"
| "fdiv (Finite a) NInf = Inr (Finite 0)"
| "fdiv x y = Inr NaN"

text \<open>\<open>x < y\<close> and \<open>x <= y\<close>: false when either side is NaN.\<close>

fun float_lt :: "double \<Rightarrow> double \<Rightarrow> bool" where
  "float_lt (Finite a) (Finite b) = (a < b)"
| "float_lt NaN y = False"
| "float_lt x NaN = False"
| "float_lt x NInf = False"
| "float_lt PInf y = False"
| "float_lt NInf y = True"
| "float_lt x PInf = True"

fun float_le :: "double \<Rightarrow> double \<Rightarrow> bool" where
  "float_le (Finite a) (Finite b) = (a \<le> b)"
| "float_le NaN y = False"
| "float_le x NaN = False"
| "float_le NInf y = True"
| "float_le x PInf = True"
| "float_le x NInf = False"
| "float_le PInf y = False"

text \<open>\<open>max(a, b)\<close>: the first argument unless the second is greater.\<close>

definition py_max :: "double \<Rightarrow> double \<Rightarrow> double" where
  "py_max a b = (if float_lt a b then b else a)"

text \<open>The conversion of an \<open>int\<close> operand of a float operation: the nearest double, and
  \<open>OverflowError\<close> for an int beyond the doubles.\<close>

definition float_of_int :: "int \<Rightarrow> error + double" where
  "float_of_int n = (case fl (of_int n) of Finite r \<Rightarrow> Inr (Finite r) | _ \<Rightarrow> Inl OverflowError)"

text \<open>\<open>int(round(x))\<close>: \<open>round\<close> with one argument gives the nearest integer, a tie going
  to the even one; it raises \<open>OverflowError\<close> on an infinity and \<open>ValueError\<close> on NaN.\<close>

fun py_round :: "double \<Rightarrow> error + int" where
  "py_round (Finite x) = Inr (round_half_even x)"
| "py_round NaN = Inl ValueError"
| "py_round PInf = Inl OverflowError"
| "py_round NInf = Inl OverflowError"

text \<open>Sequencing: the first exception raised ends the computation.\<close>

definition bind_err :: "error + 'a \<Rightarrow> ('a \<Rightarrow> error + 'b) \<Rightarrow> error + 'b" where
  "bind_err m f = (case m of Inl e \<Rightarrow> Inl e | Inr x \<Rightarrow> f x)"

section \<open>Schemas (schemas.py)\<close>

record MealItem =
  name :: string
  calories :: pyfloat
  quantity :: "pyfloat option"

text \<open>The field constraints of \<open>MealItem\<close>: \<open>calories\<close> has \<open>ge=0\<close>, \<open>quantity\<close> is
  optional with \<open>ge=0\<close>.\<close>

definition MealItem_valid :: "MealItem \<Rightarrow> bool" where
  "MealItem_valid item =
     (0 \<le> calories item \<and> (case quantity item of None \<Rightarrow> True | Some q \<Rightarrow> 0 \<le> q))"

record MealLog =
  user_id :: string
  date :: string
  items :: "MealItem list"
  total_calories :: pyfloat
  log_notes :: "string option"

text \<open>Constructing a \<open>MealLog\<close> validates it: \<open>total_calories\<close> has \<open>ge=0\<close>. The
  items are \<open>MealItem\<close> instances already, validated when they were built.\<close>

definition MealLog_new ::
  "string \<Rightarrow> string \<Rightarrow> MealItem list \<Rightarrow> pyfloat \<Rightarrow> string option \<Rightarrow> error + MealLog" where
  "MealLog_new u d its tot n =
     (if 0 \<le> tot
      then Inr \<lparr>user_id = u, date = d, items = its, total_calories = tot, log_notes = n\<rparr>
      else Inl ValidationError)"

section \<open>The document store (database.py)\<close>

text \<open>A stored value, and a document: a dictionary from field names to values.\<close>

datatype jvalue =
    JNull
  | JNum pyfloat
  | JStr string
  | JArr "jvalue list"
  | JObj "(string \<times> jvalue) list"

type_synonym document = "string \<rightharpoonup> jvalue"

text \<open>
  The handle \<open>db\<close> of the store. \<open>list_collection_names\<close> is the answer of the driver to
  that call: the names, or \<open>Inl m\<close> when it raises an exception \<open>e\<close> with \<open>str(e) = m\<close>.
  \<open>documents\<close> holds the documents of each collection in the order of the store,
  \<open>reachable\<close> tells whether reads and writes go through, and \<open>next_id\<close> is the
  source of fresh identifiers.
\<close>

record db_handle =
  list_collection_names :: "string + string list"
  reachable :: bool
  documents :: "string \<Rightarrow> document list"
  next_id :: nat

type_synonym object_id = nat

text \<open>Modelled from the spec: the serialisation of a meal item to the storage-native
  representation, part of \<open>create_document\<close> in database.py, which is not among the
  sources. Each field is stored under its schema name.\<close>

definition item_to_json :: "MealItem \<Rightarrow> jvalue" where
  "item_to_json item =
     JObj [(''name'', JStr (name item)),
           (''calories'', JNum (calories item)),
           (''quantity'', (case quantity item of None \<Rightarrow> JNull | Some q \<Rightarrow> JNum q))]"

text \<open>Modelled from the spec: the serialisation of a \<open>MealLog\<close> record to the
  storage-native representation, part of \<open>create_document\<close> in database.py, which is
  not among the sources. Each field is stored under its schema name.\<close>

definition to_document :: "MealLog \<Rightarrow> document" where
  "to_document m =
     [''user_id'' \<mapsto> JStr (user_id m),
      ''date'' \<mapsto> JStr (date m),
      ''items'' \<mapsto> JArr (map item_to_json (items m)),
      ''total_calories'' \<mapsto> JNum (total_calories m),
      ''notes'' \<mapsto> (case log_notes m of None \<Rightarrow> JNull | Some n \<Rightarrow> JStr n)]"

text \<open>Modelled from the spec: \<open>create_document(collection_name, record)\<close> of
  database.py, which is not among the sources. It inserts the serialised record into the
  named collection and returns a newly generated identifier; it fails with a storage
  error when the handle is null or the store is unreachable. The identifier, a string in
  the code, is modelled by the counter it is generated from.\<close>

definition create_document ::
  "db_handle option \<Rightarrow> string \<Rightarrow> document \<Rightarrow> error + (object_id \<times> db_handle option)" where
  "create_document db collection_name doc =
     (case db of
        None \<Rightarrow> Inl StorageError
      | Some h \<Rightarrow>
          if \<not> reachable h then Inl StorageError
          else Inr (next_id h,
                 Some (h\<lparr>documents := (documents h)
                            (collection_name := documents h collection_name @ [doc]),
                         next_id := Suc (next_id h)\<rparr>)))"

text \<open>Modelled from the spec: the filter of \<open>get_documents\<close>, a conjunction of
  equalities. A document matches when every field of the filter is present in it with
  exactly that value.\<close>

definition matches :: "(string \<times> jvalue) list \<Rightarrow> document \<Rightarrow> bool" where
  "matches flt doc = list_all (\<lambda>(k, v). doc k = Some v) flt"

text \<open>Modelled from the spec: \<open>get_documents(collection_name, filter)\<close> of
  database.py, which is not among the sources. It returns the documents of the collection
  that match the filter, in the order of the store, the empty list when none does, and
  fails with a storage error when the handle is null or the store is unreachable.\<close>

definition get_documents ::
  "db_handle option \<Rightarrow> string \<Rightarrow> (string \<times> jvalue) list \<Rightarrow> error + document list" where
  "get_documents db collection_name flt =
     (case db of
        None \<Rightarrow> Inl StorageError
      | Some h \<Rightarrow>
          if \<not> reachable h then Inl StorageError
          else Inr (filter (matches flt) (documents h collection_name)))"

section \<open>Meal logging and daily summary (main.py)\<close>

record LogMealRequest =
  req_user_id :: string
  req_date :: string
  req_items :: "MealItem list"
  req_notes :: "string option"

text \<open>The request body is validated before the handler runs: each item is a valid
  \<open>MealItem\<close>.\<close>

definition LogMealRequest_valid :: "LogMealRequest \<Rightarrow> bool" where
  "LogMealRequest_valid payload = list_all MealItem_valid (req_items payload)"

record LogMealResponse =
  log_id :: object_id
  resp_total_calories :: pyfloat

text \<open>
  \<^verbatim>\<open>total = sum((item.calories or 0) * (item.quantity or 1) for item in payload.items)\<close>
\<close>

definition item_calories :: "MealItem \<Rightarrow> pyfloat" where
  "item_calories item = num_or (calories item) 0 * opt_or (quantity item) 1"

definition log_meal ::
  "db_handle option \<Rightarrow> LogMealRequest \<Rightarrow> error + (LogMealResponse \<times> db_handle option)" where
  "log_meal db payload =
     (let tot = py_sum (map item_calories (req_items payload))
      in case MealLog_new (req_user_id payload) (req_date payload) (req_items payload) tot
                (req_notes payload) of
           Inl e \<Rightarrow> Inl e
         | Inr doc \<Rightarrow>
             (case create_document db ''meallog'' (to_document doc) of
                Inl e \<Rightarrow> Inl e
              | Inr (inserted_id, db') \<Rightarrow>
                  Inr (\<lparr>log_id = inserted_id, resp_total_calories = tot\<rparr>, db')))"

record DaySummary =
  summary_date :: string
  summary_total_calories :: pyfloat

text \<open>\<open>d.get(key, default)\<close>\<close>

definition dict_get :: "document \<Rightarrow> string \<Rightarrow> jvalue \<Rightarrow> jvalue" where
  "dict_get d key dflt = (case d key of None \<Rightarrow> dflt | Some v \<Rightarrow> v)"

text \<open>\<open>float(v)\<close> on a stored value: a number is itself, \<open>None\<close>, a list and a
  dictionary raise \<open>TypeError\<close>. A string stands for text that is no numeric literal,
  on which \<open>float\<close> raises \<open>ValueError\<close>; the parsing of numeric text is not modelled.\<close>

fun py_float :: "jvalue \<Rightarrow> error + pyfloat" where
  "py_float (JNum x) = Inr x"
| "py_float (JStr s) = Inl ValueError"
| "py_float JNull = Inl TypeError"
| "py_float (JArr xs) = Inl TypeError"
| "py_float (JObj kvs) = Inl TypeError"

text \<open>
  The loop of \<open>daily_summary\<close>:
  \<^verbatim>\<open>for d in docs: total += float(d.get("total_calories", 0))\<close>
\<close>

fun daily_summary_loop :: "pyfloat \<Rightarrow> document list \<Rightarrow> error + pyfloat" where
  "daily_summary_loop tot [] = Inr tot"
| "daily_summary_loop tot (d # docs) =
     (case py_float (dict_get d ''total_calories'' (JNum 0)) of
        Inl e \<Rightarrow> Inl e
      | Inr x \<Rightarrow> daily_summary_loop (tot + x) docs)"

definition daily_summary :: "db_handle option \<Rightarrow> string \<Rightarrow> string \<Rightarrow> error + DaySummary" where
  "daily_summary db uid day =
     (case get_documents db ''meallog'' [(''user_id'', JStr uid), (''date'', JStr day)] of
        Inl e \<Rightarrow> Inl e
      | Inr docs \<Rightarrow>
          (case daily_summary_loop 0 docs of
             Inl e \<Rightarrow> Inl e
           | Inr tot \<Rightarrow> Inr \<lparr>summary_date = day, summary_total_calories = tot\<rparr>))"

section \<open>Diet plan (main.py)\<close>

record DietRequest =
  age :: int
  sex :: string
  height_cm :: double
  weight_kg :: double
  activity_level :: string
  goal :: string

text \<open>The field constraints of \<open>DietRequest\<close>, checked before the handler runs: \<open>ge=0\<close>
  and \<open>le=120\<close> on the age, \<open>ge=0\<close> on the height and the weight, which an infinity
  passes and NaN does not.\<close>

definition DietRequest_valid :: "DietRequest \<Rightarrow> bool" where
  "DietRequest_valid req =
     (0 \<le> age req \<and> age req \<le> 120 \<and>
      float_le (Finite 0) (height_cm req) \<and> float_le (Finite 0) (weight_kg req))"

record DietPlan =
  target_calories :: int
  protein_g :: int
  carbs_g :: int
  fat_g :: int
  tips :: "string list"

definition activity_factors :: "(string \<times> double) list" where
  "activity_factors =
     [(''sedentary'', fl 1.2),
      (''light'', fl 1.375),
      (''moderate'', fl 1.55),
      (''active'', fl 1.725),
      (''very_active'', fl 1.9)]"

text \<open>
  The handler. The int literals 10, 5, 161, 500, 300, 1200, 4 and 9 are doubles
  exactly; \<open>5 * req.age\<close> is an int product, converted when it is subtracted from a
  float. The four roundings are evaluated in the order of the arguments of \<open>DietPlan\<close>.
\<close>

definition diet_plan :: "DietRequest \<Rightarrow> error + DietPlan" where
  "diet_plan req =
     (let sex' = py_lower (sex req)
      in if sex' \<notin> set [''male'', ''female'']
         then Inl (HTTPException 400
                 (''sex must be '' @ [CHR 0x27] @ ''male'' @ [CHR 0x27] @ '' or ''
                    @ [CHR 0x27] @ ''female'' @ [CHR 0x27]))
         else if map_of activity_factors (activity_level req) = None
         then Inl (HTTPException 400 ''invalid activity_level'')
         else
           bind_err (float_of_int (5 * age req)) (\<lambda>age5.
             let bmr =
                   (if sex' = ''male''
                    then fadd (fsub (fadd (fmul (Finite 10) (weight_kg req))
                                          (fmul (fl 6.25) (height_cm req))) age5) (Finite 5)
                    else fsub (fsub (fadd (fmul (Finite 10) (weight_kg req))
                                          (fmul (fl 6.25) (height_cm req))) age5) (Finite 161))
             in case map_of activity_factors (activity_level req) of
                  None \<Rightarrow> Inl KeyError
                | Some factor \<Rightarrow>
                    let tdee = fmul bmr factor;
                        target =
                          (if goal req = ''lose'' then fsub tdee (Finite 500)
                           else if goal req = ''gain'' then fadd tdee (Finite 300)
                           else tdee);
                        target = py_max (Finite 1200) target;
                        protein_cal = fmul (fl 0.30) target;
                        carb_cal = fmul (fl 0.40) target;
                        fat_cal = fmul (fl 0.30) target
                    in bind_err (py_round target) (\<lambda>target_rounded.
                       bind_err (bind_err (fdiv protein_cal (Finite 4)) py_round) (\<lambda>protein.
                       bind_err (bind_err (fdiv carb_cal (Finite 4)) py_round) (\<lambda>carbs.
                       bind_err (bind_err (fdiv fat_cal (Finite 9)) py_round) (\<lambda>fat.
                         Inr \<lparr>target_calories = target_rounded,
                              protein_g = protein,
                              carbs_g = carbs,
                              fat_g = fat,
                              tips =
                                [''Aim for whole foods: lean protein, veggies, fruits, whole grains'',
                                 ''Drink enough water (2-3L/day)'',
                                 ''Prioritize protein in each meal'']\<rparr>))))))"

section \<open>Exercise form guidance (main.py)\<close>

record FormGuideRequest =
  exercise :: string

record FormGuideResponse =
  guide_name :: string
  cues :: "string list"
  mistakes :: "string list"

text \<open>An entry of the catalog: the dictionary with the keys \<open>cues\<close> and \<open>mistakes\<close>.\<close>

record form_entry =
  entry_cues :: "string list"
  entry_mistakes :: "string list"

definition form_library :: "(string \<times> form_entry) list" where
  "form_library =
     [(''squat'',
       \<lparr>entry_cues =
          [''Feet shoulder-width, toes slightly out'',
           ''Brace core, neutral spine'',
           ''Knees track over toes'',
           ''Sit back and down until thighs are parallel''],
        entry_mistakes =
          [''Heels lifting'',
           ''Knees collapsing in'',
           ''Rounding the back'']\<rparr>),
      (''push-up'',
       \<lparr>entry_cues =
          [''Hands under shoulders'',
           ''Body in a straight line'',
           ''Elbows ~45 degrees'',
           ''Chest to floor, full lockout''],
        entry_mistakes =
          [''Sagging hips'',
           ''Flaring elbows'',
           ''Half reps'']\<rparr>),
      (''deadlift'',
       \<lparr>entry_cues =
          [''Bar over mid-foot'',
           ''Hinge at hips, flat back'',
           ''Lats tight, bar close'',
           ''Push the floor, stand tall''],
        entry_mistakes =
          [''Rounding lower back'',
           ''Jerking the bar'',
           ''Bar drifting forward'']\<rparr>)]"

definition exercise_form :: "FormGuideRequest \<Rightarrow> error + FormGuideResponse" where
  "exercise_form req =
     (let nm = py_lower (py_strip (exercise req))
      in case map_of form_library nm of
           None \<Rightarrow>
             Inl (HTTPException 404 ''Exercise not found. Try squat, push-up, or deadlift'')
         | Some entry \<Rightarrow>
             Inr \<lparr>guide_name = nm, cues = entry_cues entry, mistakes = entry_mistakes entry\<rparr>)"

section \<open>Diagnostics (main.py)\<close>

text \<open>
  The texts of the report start with a pictograph that is no ASCII character: the check
  mark U+2705, the cross mark U+274C, or the warning sign U+26A0 U+FE0F. A text is
  modelled as the pictograph and the characters after it.
\<close>

datatype glyph = CheckMark | CrossMark | WarningSign

type_synonym marked_text = "glyph \<times> string"

record diagnostics =
  backend :: marked_text
  database :: marked_text
  database_url :: "marked_text option"
  database_name :: "marked_text option"
  connection_status :: string
  collections :: "string list"

text \<open>The process environment, and the truth value of \<open>os.getenv(key)\<close>: the variable is
  set and not empty.\<close>

type_synonym environ = "string \<rightharpoonup> string"

definition getenv_truthy :: "environ \<Rightarrow> string \<Rightarrow> bool" where
  "getenv_truthy env key = (case env key of None \<Rightarrow> False | Some v \<Rightarrow> v \<noteq> [])"

definition set_or_not :: "bool \<Rightarrow> marked_text" where
  "set_or_not b = (if b then (CheckMark, '' Set'') else (CrossMark, '' Not Set''))"

text \<open>
  A block of statements working on the dictionary \<open>response\<close>: it yields the dictionary
  as the block leaves it, and the message of the exception when it leaves by one.
  \<open>try_except\<close> is \<^verbatim>\<open>try: body except Exception as e: handler\<close>.
\<close>

type_synonym block = "diagnostics \<Rightarrow> string option \<times> diagnostics"

definition try_except :: "block \<Rightarrow> (string \<Rightarrow> block) \<Rightarrow> block" where
  "try_except body handler response =
     (case body response of
        (None, response') \<Rightarrow> (None, response')
      | (Some m, response') \<Rightarrow> handler m response')"

text \<open>The inner \<open>try\<close> block of \<open>test_database\<close> and its handler.\<close>

definition probe_body :: "db_handle \<Rightarrow> block" where
  "probe_body h response =
     (case list_collection_names h of
        Inl m \<Rightarrow> (Some m, response)
      | Inr names \<Rightarrow>
          (None, response\<lparr>collections := take 10 names,
                          database := (CheckMark, '' Connected & Working'')\<rparr>))"

definition probe_handler :: "string \<Rightarrow> block" where
  "probe_handler m response =
     (None, response\<lparr>database := (WarningSign, ''  Connected but Error: '' @ take 50 m)\<rparr>)"

text \<open>The outer \<open>try\<close> block and its handler.\<close>

definition test_body :: "environ \<Rightarrow> db_handle option \<Rightarrow> block" where
  "test_body env db response =
     (case db of
        Some h \<Rightarrow>
          try_except (probe_body h) probe_handler
            (response\<lparr>database := (CheckMark, '' Available''),
                      database_url := Some (set_or_not (getenv_truthy env ''DATABASE_URL'')),
                      database_name := Some (set_or_not (getenv_truthy env ''DATABASE_NAME'')),
                      connection_status := ''Connected''\<rparr>)
      | None \<Rightarrow>
          (None, response\<lparr>database := (WarningSign, ''  Available but not initialized'')\<rparr>))"

definition test_handler :: "string \<Rightarrow> block" where
  "test_handler m response =
     (None, response\<lparr>database := (CrossMark, '' Error: '' @ take 50 m)\<rparr>)"

definition test_database :: "environ \<Rightarrow> db_handle option \<Rightarrow> error + diagnostics" where
  "test_database env db =
     (let response =
            \<lparr>backend = (CheckMark, '' Running''),
             database = (CrossMark, '' Not Available''),
             database_url = None,
             database_name = None,
             connection_status = ''Not Connected'',
             collections = []\<rparr>
      in case try_except (test_body env db) test_handler response of
           (None, response') \<Rightarrow> Inr response'
         | (Some m, response') \<Rightarrow> Inl (Exception m))"

section \<open>The routes (main.py)\<close>

definition read_root :: string where
  "read_root = ''Fitness Coach Backend running''"

definition get_schema_definitions :: "string list" where
  "get_schema_definitions = [''user'', ''fooditem'', ''meallog'', ''exercise'']"

datatype request =
    GetRoot
  | GetTest
  | PostMealLog LogMealRequest
  | GetMealSummary string string
  | PostDietPlan DietRequest
  | PostExerciseForm FormGuideRequest
  | GetSchema

datatype response =
    RootMessage string
  | TestReport diagnostics
  | MealLogged LogMealResponse
  | Summary DaySummary
  | Plan DietPlan
  | FormGuide FormGuideResponse
  | SchemaCollections "string list"

text \<open>
  The application: each route runs its handler against the environment and the store
  and yields the handler's result with the store as the handler leaves it. A request
  body that violates the field constraints of its model is rejected before the handler
  runs.
\<close>

fun app :: "environ \<Rightarrow> db_handle option \<Rightarrow> request \<Rightarrow> (error + response) \<times> db_handle option" where
  "app env db GetRoot = (Inr (RootMessage read_root), db)"
| "app env db GetTest = (map_sum id TestReport (test_database env db), db)"
| "app env db (PostMealLog payload) =
     (if \<not> LogMealRequest_valid payload then (Inl RequestValidationError, db)
      else case log_meal db payload of
             Inl e \<Rightarrow> (Inl e, db)
           | Inr (r, db') \<Rightarrow> (Inr (MealLogged r), db'))"
| "app env db (GetMealSummary uid day) = (map_sum id Summary (daily_summary db uid day), db)"
| "app env db (PostDietPlan req) =
     (if \<not> DietRequest_valid req then (Inl RequestValidationError, db)
      else (map_sum id Plan (diet_plan req), db))"
| "app env db (PostExerciseForm req) = (map_sum id FormGuide (exercise_form req), db)"
| "app env db GetSchema = (Inr (SchemaCollections get_schema_definitions), db)"

section \<open>The specification's formulas and the inputs of the examples\<close>

text \<open>The sum the specification gives for a meal log: calories times quantity over the
  items, an absent quantity counting as 1.\<close>

definition claimed_total :: "MealItem list \<Rightarrow> pyfloat" where
  "claimed_total its =
     sum_list (map (\<lambda>item. calories item * (case quantity item of None \<Rightarrow> 1 | Some q \<Rightarrow> q)) its)"

text \<open>The Mifflin-St Jeor value of the specification, for the sex \<open>male\<close> and, otherwise,
  \<open>female\<close>, evaluated from the left in double arithmetic.\<close>

definition mifflin_st_jeor :: "string \<Rightarrow> double \<Rightarrow> double \<Rightarrow> int \<Rightarrow> double" where
  "mifflin_st_jeor sx w h a =
     (if sx = ''male''
      then fadd (fsub (fadd (fmul (Finite 10) w) (fmul (fl 6.25) h)) (fl (of_int (5 * a))))
             (Finite 5)
      else fsub (fsub (fadd (fmul (Finite 10) w) (fmul (fl 6.25) h)) (fl (of_int (5 * a))))
             (Finite 161))"

text \<open>The table of activity factors of the specification.\<close>

definition activity_factor :: "string \<Rightarrow> double option" where
  "activity_factor l =
     (if l = ''sedentary'' then Some (fl 1.2)
      else if l = ''light'' then Some (fl 1.375)
      else if l = ''moderate'' then Some (fl 1.55)
      else if l = ''active'' then Some (fl 1.725)
      else if l = ''very_active'' then Some (fl 1.9)
      else None)"

text \<open>The adjustment for the goal: 500 less to lose, 300 more to gain, nothing otherwise.\<close>

definition goal_adjust :: "string \<Rightarrow> double \<Rightarrow> double" where
  "goal_adjust g t =
     (if g = ''lose'' then fsub t (Finite 500)
      else if g = ''gain'' then fadd t (Finite 300)
      else t)"

text \<open>The goal-adjusted expenditure of a request, and the target before rounding: the
  adjusted expenditure, not below 1200.\<close>

definition adjusted_tdee :: "DietRequest \<Rightarrow> double \<Rightarrow> double" where
  "adjusted_tdee req factor =
     goal_adjust (goal req)
       (fmul (mifflin_st_jeor (py_lower (sex req)) (weight_kg req) (height_cm req) (age req))
          factor)"

definition clamped_target :: "DietRequest \<Rightarrow> double \<Rightarrow> double" where
  "clamped_target req factor = py_max (Finite 1200) (adjusted_tdee req factor)"

text \<open>The grams of a macronutrient: the rounding of its share of the target over its
  energy per gram.\<close>

definition macro_grams :: "rat \<Rightarrow> rat \<Rightarrow> double \<Rightarrow> error + int" where
  "macro_grams share kcal_per_g target =
     bind_err (fdiv (fmul (fl share) target) (Finite kcal_per_g)) py_round"

definition is_finite :: "double \<Rightarrow> bool" where
  "is_finite x = (case x of Finite v \<Rightarrow> True | _ \<Rightarrow> False)"

text \<open>The worked example of the specification; a request whose weight of 45.1 kg puts
  the exact target just above a tie that the doubles hit; and a request whose height is
  the double \<open>2 ^ 1023\<close>, about 8.99e307.\<close>

definition worked_example :: DietRequest where
  "worked_example =
     \<lparr>age = 30, sex = ''male'', height_cm = Finite 180, weight_kg = Finite 80,
      activity_level = ''moderate'', goal = ''maintain''\<rparr>"

definition tie_example :: DietRequest where
  "tie_example =
     \<lparr>age = 18, sex = ''female'', height_cm = Finite 151, weight_kg = fl 45.1,
      activity_level = ''sedentary'', goal = ''maintain''\<rparr>"

definition huge_example :: DietRequest where
  "huge_example = worked_example\<lparr>height_cm := Finite (2 ^ 1023)\<rparr>"

text \<open>The three tips.\<close>

definition diet_tips :: "string list" where
  "diet_tips =
     [''Aim for whole foods: lean protein, veggies, fruits, whole grains'',
      ''Drink enough water (2-3L/day)'',
      ''Prioritize protein in each meal'']"

text \<open>A bound that every result of an arithmetic operation meets; a computation that
  raises no client error; and a result that, when it is a plan, carries the three
  tips.\<close>

definition bounded :: "double \<Rightarrow> bool" where
  "bounded x = (case x of Finite v \<Rightarrow> \<bar>v\<bar> \<le> 2 * overflow_threshold | _ \<Rightarrow> True)"

definition no_client_error :: "error + 'a \<Rightarrow> bool" where
  "no_client_error m = (\<forall>e. m = Inl e \<longrightarrow> \<not> is_client_error e)"

definition tips_fixed :: "error + DietPlan \<Rightarrow> bool" where
  "tips_fixed m = (\<forall>plan. m = Inr plan \<longrightarrow> tips plan = diet_tips)"

text \<open>The catalog entry of the squat.\<close>

definition squat_entry :: form_entry where
  "squat_entry =
     \<lparr>entry_cues =
        [''Feet shoulder-width, toes slightly out'',
         ''Brace core, neutral spine'',
         ''Knees track over toes'',
         ''Sit back and down until thighs are parallel''],
      entry_mistakes =
        [''Heels lifting'',
         ''Knees collapsing in'',
         ''Rounding the back'']\<rparr>"

text \<open>The stored \<open>total_calories\<close> of a document, 0 when the field is absent; a stored
  value that is a number or absent; and the query of the daily summary.\<close>

definition stored_total_calories :: "document \<Rightarrow> pyfloat" where
  "stored_total_calories d = (case d ''total_calories'' of Some (JNum x) \<Rightarrow> x | _ \<Rightarrow> 0)"



text \<open>Stores and requests of the examples.\<close>

definition empty_store :: db_handle where
  "empty_store =
     \<lparr>list_collection_names = Inr [], reachable = True, documents = (\<lambda>c. []), next_id = 0\<rparr>"

definition zero_quantity_payload :: LogMealRequest where
  "zero_quantity_payload =
     \<lparr>req_user_id = ''u1'', req_date = ''2024-01-01'',
      req_items = [\<lparr>name = ''rice'', calories = 100, quantity = Some 0\<rparr>],
      req_notes = None\<rparr>"

definition sample_store :: db_handle where
  "sample_store =
     empty_store\<lparr>documents := (\<lambda>c. if c = ''meallog'' then
        [[''user_id'' \<mapsto> JStr ''u1'', ''date'' \<mapsto> JStr ''2024-01-01'',
          ''items'' \<mapsto> JArr [item_to_json \<lparr>name = ''rice'', calories = 100, quantity = Some 3\<rparr>],
          ''total_calories'' \<mapsto> JNum 999],
         [''user_id'' \<mapsto> JStr ''u1'', ''date'' \<mapsto> JStr ''2024-01-02'',
          ''total_calories'' \<mapsto> JNum 50],
         [''user_id'' \<mapsto> JStr ''u1'', ''date'' \<mapsto> JStr ''2024-01-01'', ''items'' \<mapsto> JArr []],
         [''user_id'' \<mapsto> JStr ''u1'', ''date'' \<mapsto> JStr ''2024-01-01'',
          ''total_calories'' \<mapsto> JNum 1]]
        else [])\<rparr>"

definition failing_store :: db_handle where
  "failing_store = empty_store\<lparr>list_collection_names :=
     Inl ''ServerSelectionTimeoutError: localhost:27017: [Errno 111] Connection refused''\<rparr>"

definition crowded_store :: db_handle where
  "crowded_store = empty_store\<lparr>list_collection_names :=
     Inr [''c01'', ''c02'', ''c03'', ''c04'', ''c05'', ''c06'', ''c07'', ''c08'', ''c09'', ''c10'',
          ''c11'', ''c12'']\<rparr>"

section \<open>Meal logging\<close>

lemma py_sum_sum_list: "py_sum xs = sum_list xs"
proof -
  have "foldl (+) a xs = a + sum_list xs" for a :: pyfloat
    by (induction xs arbitrary: a) (simp_all add: add.assoc)
  from this [of 0] show ?thesis by (simp add: py_sum_def)
qed

lemma item_calories_claimed:
  "quantity item \<noteq> Some 0 \<Longrightarrow>
   item_calories item = calories item * (case quantity item of None \<Rightarrow> 1 | Some q \<Rightarrow> q)"
  by (auto simp: item_calories_def num_or_def opt_or_def split: option.splits)

lemma item_calories_nonneg: "MealItem_valid item \<Longrightarrow> 0 \<le> item_calories item"
  by (auto simp: item_calories_def num_or_def opt_or_def MealItem_valid_def split: option.splits)

text \<open>When no item has the quantity 0, the handler returns and stores the sum of the
  specification, and one document is appended to the collection.\<close>

lemma log_meal_total_nonzero_quantity:
  assumes "reachable h" and "LogMealRequest_valid payload"
    and "list_all (\<lambda>item. quantity item \<noteq> Some 0) (req_items payload)"
  shows "\<exists>h'. log_meal (Some h) payload =
       Inr (\<lparr>log_id = next_id h, resp_total_calories = claimed_total (req_items payload)\<rparr>,
            Some h') \<and>
     documents h' ''meallog'' = documents h ''meallog'' @
       [to_document \<lparr>user_id = req_user_id payload, date = req_date payload,
          items = req_items payload, total_calories = claimed_total (req_items payload),
          log_notes = req_notes payload\<rparr>]"
proof -
  have "map item_calories (req_items payload) =
      map (\<lambda>item. calories item * (case quantity item of None \<Rightarrow> 1 | Some q \<Rightarrow> q))
        (req_items payload)"
    using assms(3) by (simp add: list_all_iff item_calories_claimed)
  then have t: "py_sum (map item_calories (req_items payload)) = claimed_total (req_items payload)"
    unfolding py_sum_sum_list claimed_total_def by (rule arg_cong)
  have "0 \<le> sum_list (map item_calories (req_items payload))"
    using assms(2)
    by (intro sum_list_nonneg) (auto simp: LogMealRequest_valid_def list_all_iff item_calories_nonneg)
  then have n: "0 \<le> claimed_total (req_items payload)"
    using t by (simp add: py_sum_sum_list)
  show ?thesis
    using assms(1,2) n
    by (simp add: log_meal_def t Let_def MealLog_new_def LogMealRequest_valid_def
        create_document_def)
qed

text \<open>An empty list of items gives the total 0, and a document is still created.\<close>

lemma log_meal_empty_items:
  assumes "reachable h" and "req_items payload = []"
  shows "\<exists>h'. log_meal (Some h) payload =
       Inr (\<lparr>log_id = next_id h, resp_total_calories = 0\<rparr>, Some h') \<and>
     length (documents h' ''meallog'') = Suc (length (documents h ''meallog''))"
  using assms
  by (simp add: log_meal_def py_sum_def Let_def MealLog_new_def create_document_def)

text \<open>
  C1. The claim: for items with non-negative calories and quantity, \<open>log_meal\<close> returns
  and stores the sum of calories times quantity, an absent quantity counting as 1. The
  handler computes \<open>(item.quantity or 1)\<close>, and a quantity of 0 is falsy: an item of 100
  calories with the quantity 0, which the schema accepts, is logged with 100 calories,
  where the sum of the claim is 0. The response and the stored document both carry 100.
\<close>

theorem log_meal_zero_quantity:
  "LogMealRequest_valid zero_quantity_payload \<and>
   claimed_total (req_items zero_quantity_payload) = 0 \<and>
   (\<exists>h'. log_meal (Some empty_store) zero_quantity_payload =
        Inr (\<lparr>log_id = 0, resp_total_calories = 100\<rparr>, Some h') \<and>
      map stored_total_calories (documents h' ''meallog'') = [100])"
  by (simp add: LogMealRequest_valid_def zero_quantity_payload_def MealItem_valid_def
      claimed_total_def log_meal_def Let_def py_sum_def item_calories_def num_or_def opt_or_def
      MealLog_new_def create_document_def empty_store_def to_document_def
      stored_total_calories_def)

section \<open>Double-precision arithmetic\<close>

text \<open>Rounding is evaluated without the overflow test on magnitudes below \<open>2 ^ 64\<close>.\<close>

lemma small_below_threshold: "(2::rat) ^ 64 \<le> overflow_threshold"
  by (simp add: overflow_threshold_def pow2_def)

lemma fl_code [code]:
  "fl x =
     (if \<bar>x\<bar> < 2 ^ 64 then Finite (round53 x)
      else if overflow_threshold \<le> \<bar>x\<bar> then (if 0 < x then PInf else NInf)
      else Finite (round53 x))"
  using small_below_threshold by (auto simp: fl_def)

text \<open>The doubles of some decimals: 0.1 is 3602879701896397 / 2 ^ 55.\<close>

lemma fl_tenth: "fl 0.1 = Finite (3602879701896397 / 36028797018963968)"
  by code_simp

lemma pow2_pos: "0 < pow2 k"
  by (simp add: pow2_def)

lemma round_half_even_error: "\<bar>of_int (round_half_even x) - x\<bar> \<le> 1 / 2"
proof -
  have "of_int \<lfloor>x\<rfloor> \<le> x" "x < of_int \<lfloor>x\<rfloor> + 1" by linarith+
  then show ?thesis
    by (auto simp: round_half_even_def Let_def)
qed

lemma round_half_even_zero: "\<bar>x\<bar> < 1 / 2 \<Longrightarrow> round_half_even x = 0"
proof -
  assume a: "\<bar>x\<bar> < 1 / 2"
  have b: "\<bar>of_int (round_half_even x) - x\<bar> \<le> 1 / 2" by (rule round_half_even_error)
  have "\<bar>(of_int (round_half_even x) :: rat)\<bar> < 1" using a b by linarith
  then have "\<bar>round_half_even x\<bar> < 1"
    by (metis of_int_abs of_int_less_1_iff)
  then show ?thesis by linarith
qed

lemma round_half_even_bound: "\<bar>of_int (round_half_even x) :: rat\<bar> \<le> 2 * \<bar>x\<bar>"
proof (cases "\<bar>x\<bar> < 1 / 2")
  case True
  then show ?thesis by (simp add: round_half_even_zero)
next
  case False
  then show ?thesis using round_half_even_error [of x] by linarith
qed

lemma round_half_even_of_int: "round_half_even (of_int n) = n"
  by (simp add: round_half_even_def)

lemma round53_bound: "\<bar>round53 x\<bar> \<le> 2 * \<bar>x\<bar>"
proof -
  let ?q = "pow2 (max (ilog2 \<bar>x\<bar>) (- 1022) - 52)"
  let ?m = "of_int (round_half_even (x / ?q)) :: rat"
  have q: "0 < ?q" by (rule pow2_pos)
  have "\<bar>?m\<bar> \<le> 2 * \<bar>x\<bar> / ?q"
    using round_half_even_bound [of "x / ?q"] q by simp
  then have "\<bar>?m\<bar> * ?q \<le> 2 * \<bar>x\<bar>"
    using q by (simp add: pos_le_divide_eq)
  moreover have "\<bar>round53 x\<bar> = \<bar>?m\<bar> * ?q"
    using q by (simp add: round53_def Let_def abs_mult)
  ultimately show ?thesis by simp
qed

lemma threshold_pos: "0 < overflow_threshold"
  using small_below_threshold by (simp add: less_le_trans [of 0 "2 ^ 64"])

lemma fl_finite: "\<bar>x\<bar> < overflow_threshold \<Longrightarrow> fl x = Finite (round53 x)"
  by (simp add: fl_def)

lemma fl_bounded: "bounded (fl x)"
proof (cases "\<bar>x\<bar> < overflow_threshold")
  case True
  then show ?thesis
    using round53_bound [of x] by (simp add: fl_finite bounded_def)
next
  case False
  then show ?thesis by (simp add: fl_def bounded_def)
qed

lemma fadd_bounded: "bounded (fadd x y)"
  by (cases x; cases y) (simp_all add: fl_bounded, simp_all add: bounded_def)

lemma fsub_bounded: "bounded (fsub x y)"
  by (simp add: fsub_def fadd_bounded)

lemma fmul_bounded: "bounded (fmul x y)"
  by (cases x; cases y) (simp_all add: fl_bounded, simp_all add: bounded_def signed_inf_def)

lemma float_of_int_small:
  "0 \<le> n \<Longrightarrow> n \<le> 600 \<Longrightarrow> float_of_int n = Inr (fl (of_int n))"
proof -
  assume a: "0 \<le> n" "n \<le> 600"
  then have "\<bar>of_int n :: rat\<bar> \<le> 600" by simp
  also have "(600 :: rat) < 2 ^ 64" by simp
  finally have "\<bar>of_int n :: rat\<bar> < overflow_threshold"
    using small_below_threshold by linarith
  then show ?thesis
    by (simp add: float_of_int_def fl_finite)
qed

lemma fl_030: "fl 0.30 = Finite (5404319552844595 / 18014398509481984)"
  by code_simp

lemma fl_040: "fl 0.40 = Finite (3602879701896397 / 9007199254740992)"
  by code_simp

lemma fl_625: "fl 6.25 = Finite (25 / 4)"
  by code_simp

lemma fl_155: "fl 1.55 = Finite (6980579422424269 / 4503599627370496)"
  by code_simp

text \<open>The grams of a macronutrient exist when the target is finite.\<close>

lemma macro_grams_ok:
  assumes "bounded (Finite v)" and "fl share = Finite c" and "\<bar>c\<bar> < 1 / 2" and "4 \<le> k"
  shows "\<exists>n. macro_grams share k (Finite v) = Inr n"
proof -
  have t: "0 < overflow_threshold" by (rule threshold_pos)
  have v: "\<bar>v\<bar> \<le> 2 * overflow_threshold" using assms(1) by (simp add: bounded_def)
  have "\<bar>c * v\<bar> = \<bar>c\<bar> * \<bar>v\<bar>" by (simp add: abs_mult)
  also have "\<dots> \<le> \<bar>c\<bar> * (2 * overflow_threshold)"
    using v by (simp add: mult_left_mono)
  also have "\<dots> < 1 / 2 * (2 * overflow_threshold)"
    using assms(3) t by (simp add: mult_strict_right_mono)
  finally have cv: "\<bar>c * v\<bar> < overflow_threshold" by simp
  then have m: "fmul (fl share) (Finite v) = Finite (round53 (c * v))"
    by (simp add: assms(2) fl_finite)
  have y: "\<bar>round53 (c * v)\<bar> \<le> 2 * overflow_threshold"
    using round53_bound [of "c * v"] cv by linarith
  have k: "0 < k" using assms(4) by linarith
  have "\<bar>round53 (c * v) / k\<bar> = \<bar>round53 (c * v)\<bar> / k"
    using k by simp
  also have "\<dots> \<le> 2 * overflow_threshold / k"
    using y k by (simp add: divide_right_mono)
  also have "\<dots> \<le> 2 * overflow_threshold / 4"
    using assms(4) t by (intro frac_le) simp_all
  also have "\<dots> < overflow_threshold" using t by simp
  finally have "fl (round53 (c * v) / k) = Finite (round53 (round53 (c * v) / k))"
    by (rule fl_finite)
  then show ?thesis
    using k by (simp add: macro_grams_def m bind_err_def)
qed

lemma pow2_powi: "pow2 k = 2 powi k"
  by (simp add: pow2_def power_int_def inverse_eq_divide power_one_over)

lemma pow2_of_nat_power: "0 \<le> k \<Longrightarrow> pow2 k = 2 ^ nat k"
  by (simp add: pow2_def)

lemma pow2_mono: "i \<le> j \<Longrightarrow> pow2 i \<le> pow2 j"
  unfolding pow2_powi by (rule power_int_increasing) simp_all

text \<open>\<open>ilog2\<close> is the exponent of a positive rational.\<close>

lemma ilog2_bounds:
  assumes "0 < x"
  shows "pow2 (ilog2 x) \<le> x \<and> x < pow2 (ilog2 x + 1)"
proof -
  obtain p q where pq: "quotient_of x = (p, q)" by (cases "quotient_of x")
  have q: "0 < q" using pq by (rule quotient_of_denom_pos)
  have x: "x = of_int p / of_int q" using pq by (rule quotient_of_div)
  have p: "0 < p" using assms q unfolding x by (simp add: zero_less_divide_iff)
  let ?a = "bitlen p" and ?b = "bitlen q"
  have a1: "1 \<le> ?a" using p bitlen_eq_zero_iff [of p] bitlen_nonneg [of p] by linarith
  have b1: "1 \<le> ?b" using q bitlen_eq_zero_iff [of q] bitlen_nonneg [of q] by linarith
  have pb: "(2::int) ^ nat (?a - 1) \<le> p" "p < 2 ^ nat ?a"
    using bitlen_bounds [OF p] by simp_all
  have qb: "(2::int) ^ nat (?b - 1) \<le> q" "q < 2 ^ nat ?b"
    using bitlen_bounds [OF q] by simp_all
  have P: "pow2 (?a - 1) \<le> of_int p" "of_int p < pow2 ?a"
  proof -
    have "(of_int ((2::int) ^ nat (?a - 1)) :: rat) \<le> of_int p"
      using pb(1) by (simp only: of_int_le_iff)
    then show "pow2 (?a - 1) \<le> of_int p" using a1 by (simp add: pow2_of_nat_power)
    have "(of_int p :: rat) < of_int ((2::int) ^ nat ?a)"
      using pb(2) by (simp only: of_int_less_iff)
    then show "of_int p < pow2 ?a" using a1 by (simp add: pow2_of_nat_power)
  qed
  have Q: "pow2 (?b - 1) \<le> of_int q" "of_int q < pow2 ?b"
  proof -
    have "(of_int ((2::int) ^ nat (?b - 1)) :: rat) \<le> of_int q"
      using qb(1) by (simp only: of_int_le_iff)
    then show "pow2 (?b - 1) \<le> of_int q" using b1 by (simp add: pow2_of_nat_power)
    have "(of_int q :: rat) < of_int ((2::int) ^ nat ?b)"
      using qb(2) by (simp only: of_int_less_iff)
    then show "of_int q < pow2 ?b" using b1 by (simp add: pow2_of_nat_power)
  qed
  let ?k = "?a - ?b"
  have qr: "(0::rat) < of_int q" using q by simp
  have lo: "pow2 (?k - 1) \<le> x"
  proof -
    have "pow2 (?k - 1) * of_int q \<le> pow2 (?k - 1) * pow2 ?b"
      using Q(2) by (simp add: mult_left_mono pow2_powi)
    also have "\<dots> = pow2 (?a - 1)"
      by (simp add: pow2_powi power_int_add [symmetric])
    also have "\<dots> \<le> of_int p" by (rule P(1))
    finally show ?thesis
      unfolding x using qr by (simp add: pos_le_divide_eq)
  qed
  have hi: "x < pow2 (?k + 1)"
  proof -
    have "of_int p < pow2 ?a" by (rule P(2))
    also have "\<dots> = pow2 (?k + 1) * pow2 (?b - 1)"
      by (simp add: pow2_powi power_int_add [symmetric])
    also have "\<dots> \<le> pow2 (?k + 1) * of_int q"
      using Q(1) by (simp add: mult_left_mono pow2_powi)
    finally show ?thesis
      unfolding x using qr by (simp add: pos_divide_less_eq)
  qed
  show ?thesis
    using lo hi by (auto simp: ilog2_def pq Let_def)
qed

section \<open>Diet plan\<close>

lemma map_of_activity_factors: "map_of activity_factors l = activity_factor l"
  by (simp add: activity_factors_def activity_factor_def)

lemma lower_male: "py_lower ''male'' = ''male''"
  by code_simp

lemma bind_err_Inr: "bind_err (Inr x) f = f x"
  by (simp add: bind_err_def)

lemma bind_err_Inl: "bind_err (Inl e) f = Inl e"
  by (simp add: bind_err_def)

text \<open>The handler on a request that passes its two checks: the four roundings of the
  specification's target, in order.\<close>

lemma diet_plan_ok:
  assumes "0 \<le> age req" and "age req \<le> 120"
    and "py_lower (sex req) = ''male'' \<or> py_lower (sex req) = ''female''"
    and "activity_factor (activity_level req) = Some factor"
  shows "diet_plan req =
     bind_err (py_round (clamped_target req factor)) (\<lambda>target_rounded.
     bind_err (macro_grams 0.30 4 (clamped_target req factor)) (\<lambda>protein.
     bind_err (macro_grams 0.40 4 (clamped_target req factor)) (\<lambda>carbs.
     bind_err (macro_grams 0.30 9 (clamped_target req factor)) (\<lambda>fat.
       Inr \<lparr>target_calories = target_rounded, protein_g = protein, carbs_g = carbs,
            fat_g = fat, tips = diet_tips\<rparr>))))"
proof -
  have a: "float_of_int (5 * age req) = Inr (fl (of_int (5 * age req)))"
    using assms(1,2) by (intro float_of_int_small) simp_all
  show ?thesis
    using assms(3,4)
    by (auto simp: diet_plan_def Let_def a bind_err_Inr map_of_activity_factors
        clamped_target_def adjusted_tdee_def goal_adjust_def mifflin_st_jeor_def
        macro_grams_def diet_tips_def)
qed

lemma clamped_target_bounded: "bounded (clamped_target req factor)"
proof -
  have "bounded (adjusted_tdee req factor)"
    by (simp add: adjusted_tdee_def goal_adjust_def fsub_bounded fadd_bounded fmul_bounded)
  moreover have "bounded (Finite 1200)"
    using small_below_threshold by (simp add: bounded_def)
  ultimately show ?thesis
    by (simp add: clamped_target_def py_max_def)
qed

lemma clamped_target_cases:
  "is_finite (clamped_target req factor) \<or> clamped_target req factor = PInf"
  by (cases "adjusted_tdee req factor") (simp_all add: clamped_target_def py_max_def is_finite_def)

lemma diet_plan_finite:
  assumes "0 \<le> age req" and "age req \<le> 120"
    and "py_lower (sex req) = ''male'' \<or> py_lower (sex req) = ''female''"
    and "activity_factor (activity_level req) = Some factor"
    and "clamped_target req factor = Finite v"
  shows "\<exists>p c f. macro_grams 0.30 4 (Finite v) = Inr p \<and>
       macro_grams 0.40 4 (Finite v) = Inr c \<and>
       macro_grams 0.30 9 (Finite v) = Inr f \<and>
       diet_plan req =
         Inr \<lparr>target_calories = round_half_even v, protein_g = p, carbs_g = c, fat_g = f,
              tips = diet_tips\<rparr>"
proof -
  have b: "bounded (Finite v)"
    using clamped_target_bounded [of req factor] assms(5) by simp
  have h: "\<bar>5404319552844595 / 18014398509481984 :: rat\<bar> < 1 / 2"
    "\<bar>3602879701896397 / 9007199254740992 :: rat\<bar> < 1 / 2"
    by simp_all
  obtain p where p: "macro_grams 0.30 4 (Finite v) = Inr p"
    using macro_grams_ok [OF b fl_030 h(1), of 4] by auto
  obtain c where c: "macro_grams 0.40 4 (Finite v) = Inr c"
    using macro_grams_ok [OF b fl_040 h(2), of 4] by auto
  obtain f where f: "macro_grams 0.30 9 (Finite v) = Inr f"
    using macro_grams_ok [OF b fl_030 h(1), of 9] by auto
  show ?thesis
    using diet_plan_ok [OF assms(1-4)] p c f
    by (simp add: assms(5) bind_err_Inr)
qed

lemma diet_plan_overflow:
  assumes "0 \<le> age req" and "age req \<le> 120"
    and "py_lower (sex req) = ''male'' \<or> py_lower (sex req) = ''female''"
    and "activity_factor (activity_level req) = Some factor"
    and "clamped_target req factor = PInf"
  shows "diet_plan req = Inl OverflowError"
  using diet_plan_ok [OF assms(1-4)] by (simp add: assms(5) bind_err_Inl)

lemma diet_plan_worked_example:
  "diet_plan worked_example =
     Inr \<lparr>target_calories = 2759, protein_g = 207, carbs_g = 276, fat_g = 92,
          tips = diet_tips\<rparr>"
  by code_simp

lemma diet_plan_tie_example:
  "diet_plan tie_example =
     Inr \<lparr>target_calories = 1372, protein_g = 103, carbs_g = 137, fat_g = 46,
          tips = diet_tips\<rparr>"
  by code_simp

lemma worked_example_checks:
  "DietRequest_valid worked_example"
  "py_lower (sex worked_example) = ''male'' \<or> py_lower (sex worked_example) = ''female''"
  "activity_factor (activity_level worked_example) = Some (fl 1.55)"
  by (simp_all add: DietRequest_valid_def worked_example_def lower_male activity_factor_def)

lemma huge_example_checks:
  "DietRequest_valid huge_example"
  "py_lower (sex huge_example) = ''male'' \<or> py_lower (sex huge_example) = ''female''"
  "activity_factor (activity_level huge_example) = Some (fl 1.55)"
  by (simp_all add: DietRequest_valid_def huge_example_def worked_example_def lower_male
      activity_factor_def)

lemma huge_product: "fmul (fl 6.25) (Finite (2 ^ 1023)) = PInf"
proof -
  have t: "overflow_threshold \<le> \<bar>25 / 4 * 2 ^ 1023 :: rat\<bar>"
    by (simp add: overflow_threshold_def pow2_def)
  have p: "(0::rat) < 25 / 4 * 2 ^ 1023" by simp
  have "fmul (fl 6.25) (Finite (2 ^ 1023)) = fl (25 / 4 * 2 ^ 1023)"
    unfolding fl_625 by (simp only: fmul.simps)
  also have "\<dots> = PInf"
    unfolding fl_def using t p by (simp only: if_True)
  finally show ?thesis .
qed

lemma fl_800: "fl 800 = Finite 800"
  by code_simp

lemma fl_150: "fl 150 = Finite 150"
  by code_simp

lemma huge_example_fields:
  "sex huge_example = ''male''" "weight_kg huge_example = Finite 80"
  "height_cm huge_example = Finite (2 ^ 1023)" "age huge_example = 30"
  "goal huge_example = ''maintain''"
  by (simp_all add: huge_example_def worked_example_def)

lemma huge_example_target: "clamped_target huge_example (fl 1.55) = PInf"
proof -
  have m: "mifflin_st_jeor ''male'' (Finite 80) (Finite (2 ^ 1023)) 30 = PInf"
    unfolding mifflin_st_jeor_def huge_product
    by (simp add: fl_800 fl_150 fsub_def)
  have f: "fmul PInf (fl 1.55) = PInf"
    unfolding fl_155 by (simp add: signed_inf_def)
  have g: "goal_adjust ''maintain'' PInf = PInf"
    by (simp add: goal_adjust_def)
  show ?thesis
    unfolding clamped_target_def adjusted_tdee_def huge_example_fields lower_male m f g
    by (simp add: py_max_def)
qed

lemma diet_plan_huge_example: "diet_plan huge_example = Inl OverflowError"
proof -
  have a: "0 \<le> age huge_example" "age huge_example \<le> 120"
    by (simp_all add: huge_example_fields)
  show ?thesis
    using diet_plan_overflow [OF a huge_example_checks(2,3) huge_example_target] .
qed

text \<open>
  C2, as amended. For every valid request with a sex that is male or female after
  lowercasing and a recognized activity level: when the clamped target, computed in
  double arithmetic in the order of the code, is finite, \<open>diet_plan\<close> returns a plan whose
  \<open>target_calories\<close> is the rounding (Python's \<open>round\<close>, ties to even) of the larger of
  1200 and the goal-adjusted product of the Mifflin-St Jeor value and the factor of the
  table; when that adjusted product is below 1200 the target is exactly 1200; and when
  the clamped target is not finite it is plus infinity and the handler raises
  \<open>OverflowError\<close>.
\<close>

theorem diet_plan_target_calories:
  assumes "DietRequest_valid req"
    and "py_lower (sex req) = ''male'' \<or> py_lower (sex req) = ''female''"
    and "activity_factor (activity_level req) = Some factor"
  shows "(is_finite (clamped_target req factor) \<longrightarrow>
       (\<exists>plan. diet_plan req = Inr plan \<and>
          Inr (target_calories plan) =
            py_round (py_max (Finite 1200) (goal_adjust (goal req)
              (fmul (mifflin_st_jeor (py_lower (sex req)) (weight_kg req) (height_cm req)
                       (age req)) factor))))) \<and>
     (float_lt (goal_adjust (goal req)
         (fmul (mifflin_st_jeor (py_lower (sex req)) (weight_kg req) (height_cm req)
                  (age req)) factor)) (Finite 1200) \<longrightarrow>
       (\<exists>plan. diet_plan req = Inr plan \<and> target_calories plan = 1200)) \<and>
     (\<not> is_finite (clamped_target req factor) \<longrightarrow>
       clamped_target req factor = PInf \<and> diet_plan req = Inl OverflowError)"
proof -
  let ?t = "goal_adjust (goal req)
     (fmul (mifflin_st_jeor (py_lower (sex req)) (weight_kg req) (height_cm req) (age req))
        factor)"
  have a: "0 \<le> age req" "age req \<le> 120"
    using assms(1) by (simp_all add: DietRequest_valid_def)
  have ct: "clamped_target req factor = py_max (Finite 1200) ?t"
    by (simp add: clamped_target_def adjusted_tdee_def)
  have fin: "\<exists>plan. diet_plan req = Inr plan \<and> Inr (target_calories plan) = py_round (Finite v)"
    if "clamped_target req factor = Finite v" for v
    using diet_plan_finite [OF a assms(2,3) that] by auto
  have 1: "is_finite (clamped_target req factor) \<longrightarrow>
       (\<exists>plan. diet_plan req = Inr plan \<and>
          Inr (target_calories plan) = py_round (py_max (Finite 1200) ?t))"
  proof
    assume "is_finite (clamped_target req factor)"
    then obtain v where v: "clamped_target req factor = Finite v"
      by (cases "clamped_target req factor") (simp_all add: is_finite_def)
    from fin [OF v] show "\<exists>plan. diet_plan req = Inr plan \<and>
          Inr (target_calories plan) = py_round (py_max (Finite 1200) ?t)"
      using v ct by simp
  qed
  have 2: "float_lt ?t (Finite 1200) \<longrightarrow>
       (\<exists>plan. diet_plan req = Inr plan \<and> target_calories plan = 1200)"
  proof
    assume lt: "float_lt ?t (Finite 1200)"
    have "\<not> float_lt (Finite 1200) ?t"
      using lt by (cases ?t) simp_all
    then have v: "clamped_target req factor = Finite 1200"
      by (simp add: ct py_max_def)
    from fin [OF v] show "\<exists>plan. diet_plan req = Inr plan \<and> target_calories plan = 1200"
      using round_half_even_of_int [of 1200] by auto
  qed
  have 3: "\<not> is_finite (clamped_target req factor) \<longrightarrow>
       clamped_target req factor = PInf \<and> diet_plan req = Inl OverflowError"
    using clamped_target_cases [of req factor] diet_plan_overflow [OF a assms(2,3)] by blast
  show ?thesis using 1 2 3 by blast
qed

theorem diet_plan_target_calories_witness:
  "DietRequest_valid worked_example \<and>
   (\<exists>plan. diet_plan worked_example = Inr plan \<and> target_calories plan = 2759) \<and>
   py_round (py_max (Finite 1200) (goal_adjust ''maintain''
      (fmul (mifflin_st_jeor ''male'' (Finite 80) (Finite 180) 30) (fl 1.55)))) = Inr 2759 \<and>
   diet_plan tie_example =
     Inr \<lparr>target_calories = 1372, protein_g = 103, carbs_g = 137, fat_g = 46,
          tips = diet_tips\<rparr>"
proof -
  have r: "py_round (py_max (Finite 1200) (goal_adjust ''maintain''
      (fmul (mifflin_st_jeor ''male'' (Finite 80) (Finite 180) 30) (fl 1.55)))) = Inr 2759"
    by code_simp
  have g: "goal worked_example = ''maintain''" "py_lower (sex worked_example) = ''male''"
    "weight_kg worked_example = Finite 80" "height_cm worked_example = Finite 180"
    "age worked_example = 30"
    by (simp_all add: worked_example_def lower_male)
  have c: "clamped_target worked_example (fl 1.55) = Finite 2759"
    by code_simp
  then have f: "is_finite (clamped_target worked_example (fl 1.55))"
    by (simp add: is_finite_def)
  from diet_plan_target_calories [OF worked_example_checks] f
  have "\<exists>plan. diet_plan worked_example = Inr plan \<and>
      Inr (target_calories plan) = (Inr 2759 :: error + int)"
    unfolding g r by blast
  then have "\<exists>plan. diet_plan worked_example = Inr plan \<and> target_calories plan = 2759"
    by simp
  then show ?thesis
    using worked_example_checks(1) r diet_plan_tie_example by blast
qed

text \<open>
  The claim as stated, a target for every valid request, fails where the arithmetic
  overflows: with the height \<open>2 ^ 1023\<close> (about 8.99e307, a valid \<open>height_cm\<close>) the
  product \<open>6.25 * height_cm\<close> is plus infinity, so is the target, and \<open>round\<close> raises
  \<open>OverflowError\<close>: the handler returns no plan.
\<close>

theorem diet_plan_overflow_counterexample:
  "DietRequest_valid huge_example \<and>
   py_lower (sex huge_example) = ''male'' \<and>
   activity_factor (activity_level huge_example) = Some (fl 1.55) \<and>
   clamped_target huge_example (fl 1.55) = PInf \<and>
   diet_plan huge_example = Inl OverflowError"
proof -
  have "diet_plan huge_example = Inl OverflowError"
    by (rule diet_plan_huge_example)
  then show ?thesis
    using huge_example_checks huge_example_target
    by (simp add: huge_example_fields lower_male)
qed

text \<open>
  C3, as amended. For every valid request that passes the checks of the handler and
  whose clamped target is finite, the handler returns a plan whose macro grams are the
  roundings of 30 percent of the unrounded, clamped target over 4, of 40 percent over 4,
  and of 30 percent over 9, in double arithmetic; and the worked example (age 30, male,
  180 cm, 80 kg, moderate, maintain) yields the target 2759 with 207 g of protein, 276 g
  of carbohydrate and 92 g of fat.
\<close>

theorem diet_plan_macros:
  assumes "DietRequest_valid req"
    and "py_lower (sex req) = ''male'' \<or> py_lower (sex req) = ''female''"
    and "activity_factor (activity_level req) = Some factor"
    and "is_finite (clamped_target req factor)"
  shows "(\<exists>plan. diet_plan req = Inr plan \<and>
       Inr (protein_g plan) = macro_grams 0.30 4 (clamped_target req factor) \<and>
       Inr (carbs_g plan) = macro_grams 0.40 4 (clamped_target req factor) \<and>
       Inr (fat_g plan) = macro_grams 0.30 9 (clamped_target req factor)) \<and>
     diet_plan worked_example =
       Inr \<lparr>target_calories = 2759, protein_g = 207, carbs_g = 276, fat_g = 92,
            tips = diet_tips\<rparr>"
proof -
  have a: "0 \<le> age req" "age req \<le> 120"
    using assms(1) by (simp_all add: DietRequest_valid_def)
  obtain v where v: "clamped_target req factor = Finite v"
    using assms(4) by (cases "clamped_target req factor") (simp_all add: is_finite_def)
  show ?thesis
    using diet_plan_finite [OF a assms(2,3) v] diet_plan_worked_example
    by (auto simp: v)
qed

theorem diet_plan_macros_witness:
  "DietRequest_valid worked_example \<and>
   clamped_target worked_example (fl 1.55) = Finite 2759 \<and>
   (\<exists>plan. diet_plan worked_example = Inr plan \<and>
      Inr (protein_g plan) = macro_grams 0.30 4 (Finite 2759) \<and>
      Inr (carbs_g plan) = macro_grams 0.40 4 (Finite 2759) \<and>
      Inr (fat_g plan) = macro_grams 0.30 9 (Finite 2759)) \<and>
   macro_grams 0.30 4 (Finite 2759) = Inr 207 \<and>
   macro_grams 0.40 4 (Finite 2759) = Inr 276 \<and>
   macro_grams 0.30 9 (Finite 2759) = Inr 92"
proof -
  have c: "clamped_target worked_example (fl 1.55) = Finite 2759"
    by code_simp
  then have f: "is_finite (clamped_target worked_example (fl 1.55))"
    by (simp add: is_finite_def)
  have r: "macro_grams 0.30 4 (Finite 2759) = Inr 207"
    "macro_grams 0.40 4 (Finite 2759) = Inr 276"
    "macro_grams 0.30 9 (Finite 2759) = Inr 92"
    by code_simp+
  from diet_plan_macros [OF worked_example_checks f]
  have "\<exists>plan. diet_plan worked_example = Inr plan \<and>
      Inr (protein_g plan) = macro_grams 0.30 4 (Finite 2759) \<and>
      Inr (carbs_g plan) = macro_grams 0.40 4 (Finite 2759) \<and>
      Inr (fat_g plan) = macro_grams 0.30 9 (Finite 2759)"
    unfolding c by blast
  then show ?thesis
    using worked_example_checks(1) c r by blast
qed

text \<open>
  The worked example as the specification states it (target 2933, 220 g, 293 g, 98 g)
  is not what the handler computes: the Mifflin-St Jeor value of the example is
  800 + 1125 - 150 + 5 = 1780, not 1892.5, and 1780 times 1.55 is 2759. And not every
  valid request has macro grams: the request with the height \<open>2 ^ 1023\<close> gets no plan.
\<close>

theorem worked_example_counterexample:
  "mifflin_st_jeor ''male'' (Finite 80) (Finite 180) 30 = Finite 1780 \<and>
   diet_plan worked_example =
     Inr \<lparr>target_calories = 2759, protein_g = 207, carbs_g = 276, fat_g = 92,
          tips = diet_tips\<rparr> \<and>
   diet_plan worked_example \<noteq>
     Inr \<lparr>target_calories = 2933, protein_g = 220, carbs_g = 293, fat_g = 98,
          tips = diet_tips\<rparr> \<and>
   DietRequest_valid huge_example \<and>
   diet_plan huge_example = Inl OverflowError"
proof -
  have m: "mifflin_st_jeor ''male'' (Finite 80) (Finite 180) 30 = Finite 1780"
    by code_simp
  have h: "diet_plan huge_example = Inl OverflowError"
    by (rule diet_plan_huge_example)
  show ?thesis
    unfolding diet_plan_worked_example h using m huge_example_checks(1) by simp
qed

lemma tips_fixed_bind: "(\<And>x. tips_fixed (f x)) \<Longrightarrow> tips_fixed (bind_err m f)"
  by (cases m) (simp_all add: tips_fixed_def bind_err_def)

lemma tips_fixed_Inl: "tips_fixed (Inl e)"
  by (simp add: tips_fixed_def)

lemma tips_fixed_diet_plan: "tips_fixed (diet_plan req)"
proof (cases "map_of activity_factors (activity_level req)")
  case None
  then show ?thesis
    by (simp add: diet_plan_def Let_def tips_fixed_Inl)
next
  case (Some factor)
  have "tips_fixed (Inr \<lparr>target_calories = a, protein_g = b, carbs_g = c, fat_g = d,
      tips = diet_tips\<rparr>)" for a b c d
    by (simp add: tips_fixed_def)
  then show ?thesis
    unfolding diet_plan_def Let_def Some diet_tips_def
    by (auto intro!: tips_fixed_bind tips_fixed_Inl)
qed

lemma bind_err_eq_Inl:
  "bind_err m f = Inl e \<longleftrightarrow> m = Inl e \<or> (\<exists>x. m = Inr x \<and> f x = Inl e)"
  by (cases m) (simp_all add: bind_err_def)

lemma bind_err_eq_Inr:
  "bind_err m f = Inr y \<longleftrightarrow> (\<exists>x. m = Inr x \<and> f x = Inr y)"
  by (cases m) (simp_all add: bind_err_def)

lemma no_client_error_bind:
  "no_client_error m \<Longrightarrow> (\<And>x. no_client_error (f x)) \<Longrightarrow> no_client_error (bind_err m f)"
  by (cases m) (simp_all add: no_client_error_def bind_err_def)

lemma no_client_error_Inr: "no_client_error (Inr x)"
  by (simp add: no_client_error_def)

lemma no_client_error_py_round: "no_client_error (py_round x)"
  by (cases x) (simp_all add: no_client_error_def is_client_error_def)

lemma no_client_error_fdiv: "no_client_error (fdiv x y)"
  by (cases x; cases y) (simp_all add: no_client_error_def is_client_error_def)

lemma no_client_error_float_of_int: "no_client_error (float_of_int n)"
  by (simp add: float_of_int_def no_client_error_def is_client_error_def split: double.splits)

lemma activity_factor_None_iff:
  "activity_factor l = None \<longleftrightarrow>
     l \<notin> {''sedentary'', ''light'', ''moderate'', ''active'', ''very_active''}"
  by (simp add: activity_factor_def)

text \<open>A request that fails one of the two checks is rejected with the status 400.\<close>

lemma diet_plan_rejected:
  assumes "\<not> (py_lower (sex req) = ''male'' \<or> py_lower (sex req) = ''female'')
     \<or> activity_factor (activity_level req) = None"
  shows "\<exists>e. diet_plan req = Inl e \<and> is_client_error e"
  using assms
  by (auto simp: diet_plan_def Let_def map_of_activity_factors is_client_error_def)

text \<open>A request that passes the two checks raises no client error.\<close>

lemma diet_plan_passed:
  assumes "py_lower (sex req) = ''male'' \<or> py_lower (sex req) = ''female''"
    and "activity_factor (activity_level req) = Some factor"
    and "diet_plan req = Inl e"
  shows "\<not> is_client_error e"
proof -
  from assms(1,2) have d: "diet_plan req =
      bind_err (float_of_int (5 * age req)) (\<lambda>age5.
        let target = py_max (Finite 1200) (goal_adjust (goal req)
              (fmul (if py_lower (sex req) = ''male''
                     then fadd (fsub (fadd (fmul (Finite 10) (weight_kg req))
                                          (fmul (fl 6.25) (height_cm req))) age5) (Finite 5)
                     else fsub (fsub (fadd (fmul (Finite 10) (weight_kg req))
                                          (fmul (fl 6.25) (height_cm req))) age5) (Finite 161))
                 factor))
        in bind_err (py_round target) (\<lambda>target_rounded.
           bind_err (bind_err (fdiv (fmul (fl 0.30) target) (Finite 4)) py_round) (\<lambda>protein.
           bind_err (bind_err (fdiv (fmul (fl 0.40) target) (Finite 4)) py_round) (\<lambda>carbs.
           bind_err (bind_err (fdiv (fmul (fl 0.30) target) (Finite 9)) py_round) (\<lambda>fat.
             Inr \<lparr>target_calories = target_rounded, protein_g = protein, carbs_g = carbs,
                  fat_g = fat, tips = diet_tips\<rparr>)))))"
    by (auto simp: diet_plan_def Let_def map_of_activity_factors goal_adjust_def diet_tips_def)
  have "no_client_error (diet_plan req)"
    unfolding d Let_def
    by (intro no_client_error_bind no_client_error_float_of_int no_client_error_py_round
        no_client_error_fdiv no_client_error_Inr)
  then show ?thesis
    using assms(3) by (simp add: no_client_error_def)
qed

lemma diet_plan_goal_other:
  assumes "g \<noteq> ''lose''" and "g \<noteq> ''gain''"
  shows "diet_plan (req\<lparr>goal := g\<rparr>) = diet_plan (req\<lparr>goal := ''maintain''\<rparr>)"
proof -
  have s: "sex (req\<lparr>goal := x\<rparr>) = sex req" "age (req\<lparr>goal := x\<rparr>) = age req"
    "height_cm (req\<lparr>goal := x\<rparr>) = height_cm req"
    "weight_kg (req\<lparr>goal := x\<rparr>) = weight_kg req"
    "activity_level (req\<lparr>goal := x\<rparr>) = activity_level req"
    "goal (req\<lparr>goal := x\<rparr>) = x" for x
    by simp_all
  have m: "''maintain'' \<noteq> ''lose''" "''maintain'' \<noteq> ''gain''"
    by simp_all
  show ?thesis
    unfolding diet_plan_def s
    by (simp only: assms m if_False)
qed

text \<open>
  C4. \<open>diet_plan\<close> fails with a client error exactly when the lowercased sex is neither
  male nor female or the activity level is none of the five of the table; the sex
  \<open>other\<close> and the activity level \<open>extreme\<close> are rejected with a client error whatever the
  other fields are; a goal other than \<open>lose\<close> and \<open>gain\<close> gives the result of \<open>maintain\<close>.
\<close>

theorem diet_plan_errors:
  "((\<exists>e. diet_plan req = Inl e \<and> is_client_error e) \<longleftrightarrow>
      py_lower (sex req) \<notin> {''male'', ''female''} \<or>
      activity_level req \<notin> {''sedentary'', ''light'', ''moderate'', ''active'', ''very_active''}) \<and>
   (\<exists>e. diet_plan (req\<lparr>sex := ''other''\<rparr>) = Inl e \<and> is_client_error e) \<and>
   (\<exists>e. diet_plan (req\<lparr>activity_level := ''extreme''\<rparr>) = Inl e \<and> is_client_error e) \<and>
   (g \<noteq> ''lose'' \<and> g \<noteq> ''gain'' \<longrightarrow>
      diet_plan (req\<lparr>goal := g\<rparr>) = diet_plan (req\<lparr>goal := ''maintain''\<rparr>))"
proof -
  have lo: "py_lower ''other'' = ''other''" by code_simp
  have a: "(\<exists>e. diet_plan req = Inl e \<and> is_client_error e) \<longleftrightarrow>
      py_lower (sex req) \<notin> {''male'', ''female''} \<or>
      activity_level req \<notin> {''sedentary'', ''light'', ''moderate'', ''active'', ''very_active''}"
  proof
    assume "\<exists>e. diet_plan req = Inl e \<and> is_client_error e"
    then obtain e where e: "diet_plan req = Inl e" "is_client_error e" by blast
    show "py_lower (sex req) \<notin> {''male'', ''female''} \<or>
      activity_level req \<notin> {''sedentary'', ''light'', ''moderate'', ''active'', ''very_active''}"
    proof (rule ccontr)
      assume "\<not> (py_lower (sex req) \<notin> {''male'', ''female''} \<or>
        activity_level req \<notin> {''sedentary'', ''light'', ''moderate'', ''active'', ''very_active''})"
      then have s: "py_lower (sex req) = ''male'' \<or> py_lower (sex req) = ''female''"
        and "activity_factor (activity_level req) \<noteq> None"
        unfolding activity_factor_None_iff by auto
      then obtain factor where "activity_factor (activity_level req) = Some factor" by blast
      from diet_plan_passed [OF s this e(1)] e(2) show False by blast
    qed
  next
    assume "py_lower (sex req) \<notin> {''male'', ''female''} \<or>
      activity_level req \<notin> {''sedentary'', ''light'', ''moderate'', ''active'', ''very_active''}"
    then have "\<not> (py_lower (sex req) = ''male'' \<or> py_lower (sex req) = ''female'')
       \<or> activity_factor (activity_level req) = None"
      unfolding activity_factor_None_iff by auto
    then show "\<exists>e. diet_plan req = Inl e \<and> is_client_error e"
      by (rule diet_plan_rejected)
  qed
  have c: "\<exists>e. diet_plan (req\<lparr>sex := ''other''\<rparr>) = Inl e \<and> is_client_error e"
    by (rule diet_plan_rejected) (simp add: lo)
  have d: "\<exists>e. diet_plan (req\<lparr>activity_level := ''extreme''\<rparr>) = Inl e \<and> is_client_error e"
    by (rule diet_plan_rejected) (simp add: activity_factor_def)
  show ?thesis
    using a c d diet_plan_goal_other by blast
qed

theorem diet_plan_errors_witness:
  "(\<exists>e. diet_plan (worked_example\<lparr>sex := ''Other''\<rparr>) = Inl e \<and> is_client_error e) \<and>
   (\<exists>e. diet_plan (worked_example\<lparr>activity_level := ''Moderate''\<rparr>) = Inl e \<and>
      is_client_error e) \<and>
   diet_plan (worked_example\<lparr>goal := ''bulk''\<rparr>) =
     Inr \<lparr>target_calories = 2759, protein_g = 207, carbs_g = 276, fat_g = 92,
          tips = diet_tips\<rparr> \<and>
   diet_plan huge_example = Inl OverflowError \<and> \<not> is_client_error OverflowError"
proof -
  have lo: "py_lower ''Other'' = ''other''" by code_simp
  have 1: "py_lower (sex (worked_example\<lparr>sex := ''Other''\<rparr>)) \<notin> {''male'', ''female''}"
    by (simp add: lo)
  have 2: "activity_level (worked_example\<lparr>activity_level := ''Moderate''\<rparr>)
      \<notin> {''sedentary'', ''light'', ''moderate'', ''active'', ''very_active''}"
    by simp
  have 3: "''bulk'' \<noteq> ''lose'' \<and> ''bulk'' \<noteq> ''gain''" by simp
  have m: "worked_example\<lparr>goal := ''maintain''\<rparr> = worked_example"
    by (simp add: worked_example_def)
  have h: "diet_plan huge_example = Inl OverflowError"
    by (rule diet_plan_huge_example)
  from diet_plan_errors [of "worked_example\<lparr>sex := ''Other''\<rparr>"] 1
  have a: "\<exists>e. diet_plan (worked_example\<lparr>sex := ''Other''\<rparr>) = Inl e \<and> is_client_error e"
    by blast
  from diet_plan_errors [of "worked_example\<lparr>activity_level := ''Moderate''\<rparr>"] 2
  have b: "\<exists>e. diet_plan (worked_example\<lparr>activity_level := ''Moderate''\<rparr>) = Inl e \<and>
      is_client_error e"
    by blast
  from diet_plan_errors [of worked_example "''bulk''"] 3
  have c: "diet_plan (worked_example\<lparr>goal := ''bulk''\<rparr>)
      = diet_plan (worked_example\<lparr>goal := ''maintain''\<rparr>)" by blast
  show ?thesis
    using a b c h diet_plan_worked_example by (simp add: m is_client_error_def)
qed

text \<open>
  C8. \<open>diet_plan\<close> is a function of the request alone: the route that runs it leaves the
  store as it was, and every plan it returns, for any request and through any
  environment and store, carries the same list of three tips.
\<close>

theorem diet_plan_pure:
  "snd (app env db (PostDietPlan req)) = db \<and>
   (\<forall>plan. diet_plan req = Inr plan \<longrightarrow> tips plan = diet_tips) \<and>
   (\<forall>env' db' plan. fst (app env' db' (PostDietPlan req)) = Inr (Plan plan) \<longrightarrow>
       tips plan = diet_tips) \<and>
   length diet_tips = 3"
proof -
  have t: "\<And>plan. diet_plan req = Inr plan \<Longrightarrow> tips plan = diet_tips"
    using tips_fixed_diet_plan [of req] by (simp add: tips_fixed_def)
  have "\<And>env' db' plan. fst (app env' db' (PostDietPlan req)) = Inr (Plan plan) \<Longrightarrow>
       tips plan = diet_tips"
  proof -
    fix env' db' plan
    assume "fst (app env' db' (PostDietPlan req)) = Inr (Plan plan)"
    then have "diet_plan req = Inr plan"
      by (cases "diet_plan req") (auto split: if_splits)
    then show "tips plan = diet_tips" by (rule t)
  qed
  then show ?thesis using t by (simp add: diet_tips_def)
qed

theorem diet_plan_pure_witness:
  "snd (app Map.empty (Some sample_store) (PostDietPlan worked_example)) = Some sample_store \<and>
   (\<exists>plan. diet_plan worked_example = Inr plan \<and> tips plan = diet_tips) \<and>
   (\<exists>plan. diet_plan (worked_example\<lparr>sex := ''FEMALE'', goal := ''lose''\<rparr>) = Inr plan \<and>
      tips plan = diet_tips)"
proof -
  have e: "diet_plan (worked_example\<lparr>sex := ''FEMALE'', goal := ''lose''\<rparr>) =
     Inr \<lparr>target_calories = 2002, protein_g = 150, carbs_g = 200, fat_g = 67,
          tips = diet_tips\<rparr>"
    by code_simp
  from diet_plan_pure [of Map.empty "Some sample_store" worked_example]
  have a: "snd (app Map.empty (Some sample_store) (PostDietPlan worked_example)) = Some sample_store"
    by blast
  from diet_plan_pure [of Map.empty None worked_example] diet_plan_worked_example
  have b: "\<exists>plan. diet_plan worked_example = Inr plan \<and> tips plan = diet_tips"
    by simp
  from diet_plan_pure [of Map.empty None "worked_example\<lparr>sex := ''FEMALE'', goal := ''lose''\<rparr>"] e
  have c: "\<exists>plan. diet_plan (worked_example\<lparr>sex := ''FEMALE'', goal := ''lose''\<rparr>) = Inr plan \<and>
      tips plan = diet_tips"
    by simp
  show ?thesis using a b c by blast
qed

section \<open>Exercise form guidance\<close>

lemma of_char_lower_range:
  "(of_char c :: nat) \<le> 222 \<Longrightarrow>
   (of_char (char_of ((of_char c :: nat) + 32)) :: nat) = of_char c + 32"
  by (simp add: of_char_of [where ?'a = nat])

lemma py_isspace_lower_char: "py_isspace (py_lower_char c) = py_isspace c"
  unfolding py_isspace_def py_lower_char_def Let_def
  by (auto simp: of_char_lower_range)

lemma py_lower_char_idem: "py_lower_char (py_lower_char c) = py_lower_char c"
  unfolding py_lower_char_def Let_def
  by (auto simp: of_char_lower_range)

lemma py_lower_idem: "py_lower (py_lower s) = py_lower s"
  by (simp add: py_lower_def py_lower_char_idem)

lemma dropWhile_isspace_lower:
  "dropWhile py_isspace (map py_lower_char xs) = map py_lower_char (dropWhile py_isspace xs)"
  by (induction xs) (simp_all add: py_isspace_lower_char)

lemma py_strip_lower: "py_strip (py_lower s) = py_lower (py_strip s)"
  by (simp add: py_strip_def py_lower_def dropWhile_isspace_lower rev_map)

lemma dropWhile_isspace_idem:
  "dropWhile py_isspace (dropWhile py_isspace xs) = dropWhile py_isspace xs"
  by (induction xs) simp_all

text \<open>Stripping twice strips once: what is left starts and ends with a character that
  is no white space.\<close>

lemma py_strip_idem: "py_strip (py_strip s) = py_strip s"
proof -
  let ?t = "dropWhile py_isspace (rev (dropWhile py_isspace s))"
  have "dropWhile py_isspace (rev ?t) = rev ?t"
  proof (cases "dropWhile py_isspace s = []")
    case True
    show ?thesis by (simp add: True)
  next
    case False
    then obtain y ys where ys: "dropWhile py_isspace s = y # ys"
      by (cases "dropWhile py_isspace s") auto
    then have ny: "\<not> py_isspace y"
      by (metis dropWhile_eq_Cons_conv)
    have "rev (dropWhile py_isspace s) = rev ys @ [y]" using ys by simp
    then have "?t = dropWhile py_isspace (rev ys) @ [y]"
      using ny by (simp add: dropWhile_append)
    then have "rev ?t = y # rev (dropWhile py_isspace (rev ys))" by simp
    then show ?thesis using ny by simp
  qed
  then show ?thesis
    by (simp add: py_strip_def dropWhile_isspace_idem)
qed

lemma normalise_idem:
  "py_lower (py_strip (py_lower (py_strip s))) = py_lower (py_strip s)"
  by (simp add: py_strip_lower py_lower_idem py_strip_idem)

text \<open>
  C5. \<open>exercise_form\<close> gives the same result on a name and on its lowercased, stripped
  form; \<open>SQUAT\<close>, \<open>squat\<close> between spaces, \<open>Squat\<close> between a no-break space and a
  next-line control, and \<open>squat\<close> all give the catalog entry of the squat.
\<close>

theorem exercise_form_case_and_space:
  "exercise_form req = exercise_form (req\<lparr>exercise := py_lower (py_strip (exercise req))\<rparr>) \<and>
   exercise_form \<lparr>exercise = ''squat''\<rparr> =
     Inr \<lparr>guide_name = ''squat'', cues = entry_cues squat_entry,
          mistakes = entry_mistakes squat_entry\<rparr> \<and>
   exercise_form \<lparr>exercise = ''SQUAT''\<rparr> = exercise_form \<lparr>exercise = ''squat''\<rparr> \<and>
   exercise_form \<lparr>exercise = '' squat ''\<rparr> = exercise_form \<lparr>exercise = ''squat''\<rparr> \<and>
   exercise_form \<lparr>exercise = CHR 0xA0 # ''Squat'' @ [CHR 0x85, CHR 0x09]\<rparr> =
     exercise_form \<lparr>exercise = ''squat''\<rparr>"
proof -
  have a: "exercise_form req = exercise_form (req\<lparr>exercise := py_lower (py_strip (exercise req))\<rparr>)"
    by (simp add: exercise_form_def normalise_idem)
  have b: "exercise_form \<lparr>exercise = ''squat''\<rparr> =
     Inr \<lparr>guide_name = ''squat'', cues = entry_cues squat_entry,
          mistakes = entry_mistakes squat_entry\<rparr>"
    by code_simp
  have c: "exercise_form \<lparr>exercise = ''SQUAT''\<rparr> = exercise_form \<lparr>exercise = ''squat''\<rparr>"
    by code_simp
  have d: "exercise_form \<lparr>exercise = '' squat ''\<rparr> = exercise_form \<lparr>exercise = ''squat''\<rparr>"
    by code_simp
  have e: "exercise_form \<lparr>exercise = CHR 0xA0 # ''Squat'' @ [CHR 0x85, CHR 0x09]\<rparr> =
     exercise_form \<lparr>exercise = ''squat''\<rparr>"
    by code_simp
  show ?thesis using a b c d e by blast
qed

lemma form_library_None_iff:
  "map_of form_library nm = None \<longleftrightarrow> nm \<notin> {''squat'', ''push-up'', ''deadlift''}"
  by (simp add: form_library_def)

text \<open>
  C6. \<open>exercise_form\<close> fails exactly when the lowercased, stripped name is none of
  \<open>squat\<close>, \<open>push-up\<close> and \<open>deadlift\<close>; it then raises the 404 error whose detail contains
  the three names, and raises nothing else. On a hit it returns the normalised name with
  the cues and the mistakes of its catalog entry, in the order of the catalog.
\<close>

theorem exercise_form_not_found:
  "(exercise_form req =
      Inl (HTTPException 404 ''Exercise not found. Try squat, push-up, or deadlift'')
    \<longleftrightarrow> py_lower (py_strip (exercise req)) \<notin> {''squat'', ''push-up'', ''deadlift''}) \<and>
   (\<forall>e. exercise_form req = Inl e \<longrightarrow>
      e = HTTPException 404 ''Exercise not found. Try squat, push-up, or deadlift'' \<and>
      is_client_error e) \<and>
   sublist ''squat'' ''Exercise not found. Try squat, push-up, or deadlift'' \<and>
   sublist ''push-up'' ''Exercise not found. Try squat, push-up, or deadlift'' \<and>
   sublist ''deadlift'' ''Exercise not found. Try squat, push-up, or deadlift'' \<and>
   (py_lower (py_strip (exercise req)) \<in> {''squat'', ''push-up'', ''deadlift''} \<longrightarrow>
      (\<exists>entry. (py_lower (py_strip (exercise req)), entry) \<in> set form_library \<and>
         exercise_form req =
           Inr \<lparr>guide_name = py_lower (py_strip (exercise req)),
                cues = entry_cues entry, mistakes = entry_mistakes entry\<rparr>))"
proof -
  let ?nm = "py_lower (py_strip (exercise req))"
  let ?detail = "''Exercise not found. Try squat, push-up, or deadlift''"
  have a: "exercise_form req = Inl (HTTPException 404 ?detail)
      \<longleftrightarrow> ?nm \<notin> {''squat'', ''push-up'', ''deadlift''}"
    unfolding form_library_None_iff [symmetric]
    by (simp add: exercise_form_def Let_def split: option.splits)
  have b: "\<forall>e. exercise_form req = Inl e \<longrightarrow> e = HTTPException 404 ?detail \<and> is_client_error e"
    by (auto simp: exercise_form_def Let_def is_client_error_def split: option.splits)
  have "?detail = ''Exercise not found. Try '' @ ''squat'' @ '', push-up, or deadlift''"
    by simp
  then have c: "sublist ''squat'' ?detail"
    unfolding sublist_def by blast
  have "?detail = ''Exercise not found. Try squat, '' @ ''push-up'' @ '', or deadlift''"
    by simp
  then have d: "sublist ''push-up'' ?detail"
    unfolding sublist_def by blast
  have "?detail = ''Exercise not found. Try squat, push-up, or '' @ ''deadlift'' @ []"
    by simp
  then have e: "sublist ''deadlift'' ?detail"
    unfolding sublist_def by blast
  have f: "?nm \<in> {''squat'', ''push-up'', ''deadlift''} \<longrightarrow>
      (\<exists>entry. (?nm, entry) \<in> set form_library \<and>
         exercise_form req =
           Inr \<lparr>guide_name = ?nm, cues = entry_cues entry, mistakes = entry_mistakes entry\<rparr>)"
  proof
    assume "?nm \<in> {''squat'', ''push-up'', ''deadlift''}"
    then have "map_of form_library ?nm \<noteq> None"
      using form_library_None_iff by blast
    then obtain entry where s: "map_of form_library ?nm = Some entry" by blast
    then have "(?nm, entry) \<in> set form_library" by (rule map_of_SomeD)
    moreover have "exercise_form req =
        Inr \<lparr>guide_name = ?nm, cues = entry_cues entry, mistakes = entry_mistakes entry\<rparr>"
      using s by (simp add: exercise_form_def Let_def)
    ultimately show "\<exists>entry. (?nm, entry) \<in> set form_library \<and>
         exercise_form req =
           Inr \<lparr>guide_name = ?nm, cues = entry_cues entry, mistakes = entry_mistakes entry\<rparr>"
      by blast
  qed
  show ?thesis using a b c d e f by blast
qed

theorem exercise_form_not_found_witness:
  "exercise_form \<lparr>exercise = ''yoga''\<rparr> =
     Inl (HTTPException 404 ''Exercise not found. Try squat, push-up, or deadlift'') \<and>
   (\<exists>entry. (''push-up'', entry) \<in> set form_library \<and>
      exercise_form \<lparr>exercise = CHR 0xA0 # '' Push-Up'' @ [CHR 0x85]\<rparr> =
        Inr \<lparr>guide_name = ''push-up'', cues = entry_cues entry, mistakes = entry_mistakes entry\<rparr>)"
proof -
  have y: "py_lower (py_strip (exercise \<lparr>exercise = ''yoga''\<rparr>)) = ''yoga''" by code_simp
  have p: "py_lower (py_strip (exercise \<lparr>exercise = CHR 0xA0 # '' Push-Up'' @ [CHR 0x85]\<rparr>)) = ''push-up''" by code_simp
  have 1: "py_lower (py_strip (exercise \<lparr>exercise = ''yoga''\<rparr>))
      \<notin> {''squat'', ''push-up'', ''deadlift''}"
    unfolding y by simp
  have 2: "py_lower (py_strip (exercise \<lparr>exercise = CHR 0xA0 # '' Push-Up'' @ [CHR 0x85]\<rparr>))
      \<in> {''squat'', ''push-up'', ''deadlift''}"
    unfolding p by simp
  from exercise_form_not_found [of "\<lparr>exercise = ''yoga''\<rparr>"] 1
  have a: "exercise_form \<lparr>exercise = ''yoga''\<rparr> =
     Inl (HTTPException 404 ''Exercise not found. Try squat, push-up, or deadlift'')"
    by blast
  from exercise_form_not_found [of "\<lparr>exercise = CHR 0xA0 # '' Push-Up'' @ [CHR 0x85]\<rparr>"] 2
  have b: "\<exists>entry. (''push-up'', entry) \<in> set form_library \<and>
      exercise_form \<lparr>exercise = CHR 0xA0 # '' Push-Up'' @ [CHR 0x85]\<rparr> =
        Inr \<lparr>guide_name = ''push-up'', cues = entry_cues entry, mistakes = entry_mistakes entry\<rparr>"
    unfolding p by blast
  show ?thesis using a b by blast
qed

section \<open>Daily summary\<close>




lemma loop_append:
  "daily_summary_loop tot (xs @ ys) =
     (case daily_summary_loop tot xs of Inl e \<Rightarrow> Inl e | Inr t \<Rightarrow> daily_summary_loop t ys)"
  by (induction xs arbitrary: tot) (simp_all split: sum.splits)

lemma loop_missing_field:
  "d ''total_calories'' = None \<Longrightarrow> daily_summary_loop tot (d # docs) = daily_summary_loop tot docs"
  by (simp add: dict_get_def)



text \<open>
  C10. A document without the field \<open>total_calories\<close> does not change what
  \<open>daily_summary\<close> returns, neither the total nor whether an error is raised: the summary
  over a collection that holds such a document, anywhere, is the summary over the
  collection without it, and the loop steps over it with its accumulator unchanged.
\<close>

theorem daily_summary_missing_field:
  assumes "d ''total_calories'' = None"
  shows "daily_summary (Some (h\<lparr>documents := (documents h)(''meallog'' := xs @ d # ys)\<rparr>)) uid day =
     daily_summary (Some (h\<lparr>documents := (documents h)(''meallog'' := xs @ ys)\<rparr>)) uid day \<and>
     daily_summary_loop tot (d # docs) = daily_summary_loop tot docs"
proof -
  let ?flt = "[(''user_id'', JStr uid), (''date'', JStr day)]"
  have "daily_summary_loop 0 (filter (matches ?flt) (xs @ d # ys)) =
        daily_summary_loop 0 (filter (matches ?flt) (xs @ ys))"
    by (simp add: loop_append loop_missing_field [of d, OF assms]
        del: daily_summary_loop.simps split: sum.splits)
  then show ?thesis
    by (simp add: daily_summary_def get_documents_def loop_missing_field [of d, OF assms]
        del: daily_summary_loop.simps)
qed

theorem daily_summary_missing_field_witness:
  "daily_summary (Some sample_store) ''u1'' ''2024-01-01'' =
     daily_summary (Some (sample_store\<lparr>documents := (documents sample_store)(''meallog'' :=
        [[''user_id'' \<mapsto> JStr ''u1'', ''date'' \<mapsto> JStr ''2024-01-01'',
          ''items'' \<mapsto> JArr [item_to_json \<lparr>name = ''rice'', calories = 100, quantity = Some 3\<rparr>],
          ''total_calories'' \<mapsto> JNum 999],
         [''user_id'' \<mapsto> JStr ''u1'', ''date'' \<mapsto> JStr ''2024-01-02'',
          ''total_calories'' \<mapsto> JNum 50]] @
         [[''user_id'' \<mapsto> JStr ''u1'', ''date'' \<mapsto> JStr ''2024-01-01'',
          ''total_calories'' \<mapsto> JNum 1]])\<rparr>)) ''u1'' ''2024-01-01''"
proof -
  let ?d = "[''user_id'' \<mapsto> JStr ''u1'', ''date'' \<mapsto> JStr ''2024-01-01'', ''items'' \<mapsto> JArr []]"
  have m: "?d ''total_calories'' = None" by simp
  have s: "sample_store = sample_store\<lparr>documents := (documents sample_store)(''meallog'' :=
        [[''user_id'' \<mapsto> JStr ''u1'', ''date'' \<mapsto> JStr ''2024-01-01'',
          ''items'' \<mapsto> JArr [item_to_json \<lparr>name = ''rice'', calories = 100, quantity = Some 3\<rparr>],
          ''total_calories'' \<mapsto> JNum 999],
         [''user_id'' \<mapsto> JStr ''u1'', ''date'' \<mapsto> JStr ''2024-01-02'',
          ''total_calories'' \<mapsto> JNum 50]] @ ?d #
         [[''user_id'' \<mapsto> JStr ''u1'', ''date'' \<mapsto> JStr ''2024-01-01'',
          ''total_calories'' \<mapsto> JNum 1]])\<rparr>"
    by (auto simp: sample_store_def empty_store_def fun_eq_iff)
  show ?thesis
    using daily_summary_missing_field [where d = "?d" and h = sample_store
        and uid = "''u1''" and day = "''2024-01-01''", OF m] s
    by metis
qed

section \<open>Diagnostics\<close>

text \<open>
  C9. \<open>test_database\<close> always returns its report, and so does its route: no exception
  leaves it. When the probe of the store raises, the report carries the first 50
  characters of the message after the text of the warning and an empty list of
  collections; when the probe answers, the report lists the first 10 names. In every
  case the list has at most 10 names.
\<close>

theorem test_database_reports:
  "\<exists>r. test_database env db = Inr r \<and>
     fst (app env db GetTest) = Inr (TestReport r) \<and>
     length (collections r) \<le> 10 \<and>
     (\<forall>h m. db = Some h \<and> list_collection_names h = Inl m \<longrightarrow>
        database r = (WarningSign, ''  Connected but Error: '' @ take 50 m) \<and>
        length (take 50 m) \<le> 50 \<and> collections r = []) \<and>
     (\<forall>h names. db = Some h \<and> list_collection_names h = Inr names \<longrightarrow>
        database r = (CheckMark, '' Connected & Working'') \<and>
        collections r = take 10 names) \<and>
     (db = None \<longrightarrow>
        database r = (WarningSign, ''  Available but not initialized'') \<and> collections r = [])"
proof (cases db)
  case None
  then show ?thesis
    by (simp add: test_database_def try_except_def test_body_def)
next
  case (Some h)
  show ?thesis
  proof (cases "list_collection_names h")
    case (Inl m)
    with Some show ?thesis
      by (simp add: test_database_def try_except_def test_body_def probe_body_def
          probe_handler_def)
  next
    case (Inr names)
    with Some show ?thesis
      by (simp add: test_database_def try_except_def test_body_def probe_body_def)
  qed
qed

theorem test_database_reports_witness:
  "(\<exists>r. test_database Map.empty (Some failing_store) = Inr r \<and>
      database r =
        (WarningSign, ''  Connected but Error: ServerSelectionTimeoutError: localhost:27017: [Err'') \<and>
      collections r = []) \<and>
   (\<exists>r. test_database Map.empty (Some crowded_store) = Inr r \<and>
      collections r =
        [''c01'', ''c02'', ''c03'', ''c04'', ''c05'', ''c06'', ''c07'', ''c08'', ''c09'', ''c10''])"
proof -
  have f: "list_collection_names failing_store =
      Inl ''ServerSelectionTimeoutError: localhost:27017: [Errno 111] Connection refused''"
    by (simp add: failing_store_def empty_store_def)
  have c: "list_collection_names crowded_store =
      Inr [''c01'', ''c02'', ''c03'', ''c04'', ''c05'', ''c06'', ''c07'', ''c08'', ''c09'', ''c10'',
          ''c11'', ''c12'']"
    by (simp add: crowded_store_def empty_store_def)
  from test_database_reports [of Map.empty "Some failing_store"] f
  have a: "\<exists>r. test_database Map.empty (Some failing_store) = Inr r \<and>
      database r =
        (WarningSign, ''  Connected but Error: ServerSelectionTimeoutError: localhost:27017: [Err'') \<and>
      collections r = []"
    by auto
  from test_database_reports [of Map.empty "Some crowded_store"] c
  have b: "\<exists>r. test_database Map.empty (Some crowded_store) = Inr r \<and>
      collections r =
        [''c01'', ''c02'', ''c03'', ''c04'', ''c05'', ''c06'', ''c07'', ''c08'', ''c09'', ''c10'']"
    by auto
  show ?thesis using a b by blast
qed

end
